theory Spec2Isabelle
  imports Complex_Main
begin

section \<open>Turkey Run: the player controller and the level manager\<close>

text \<open>
  The development embeds the two simulation components of the runner: the \<open>Player\<close>
  component (jump state machine, vertical physics, damage handler) and the
  \<open>LevelManager\<close> component (entity movement, collision, spawning, pruning, reset
  effect). JavaScript numbers are modelled as mathematical reals (rounding of IEEE
  doubles is not modelled); integer-valued quantities (level, lane, indices, time
  stamps in milliseconds) are \<open>int\<close> or \<open>nat\<close>. Mutation of refs is explicit state
  passing. Calls into the store and the audio collaborator, and DOM events without a
  listener in the modelled code, are recorded in order in a call log. Rendering-only
  assignments (mesh rotations, visibility flicker, shadow scale) are left out.
\<close>

subsection \<open>Shared types\<close>

datatype GameStatus = MENU | PLAYING | SHOP | GAME_OVER | VICTORY

datatype ObjectType = OBSTACLE | GEM | LETTER | SHOP_PORTAL | ALIEN | MISSILE

type_synonym vec3 = "real \<times> real \<times> real"

fun vx :: "vec3 \<Rightarrow> real" where "vx (a, b, c) = a"
fun vy :: "vec3 \<Rightarrow> real" where "vy (a, b, c) = b"
fun vz :: "vec3 \<Rightarrow> real" where "vz (a, b, c) = c"

text \<open>The calls the two components make into their collaborators, in source order.\<close>

datatype call =
    PlayJump bool
  | PlayDamage
  | TakeDamage
  | PlayGemCollect
  | PlayLetterCollect
  | CollectGem real
  | CollectLetter nat
  | OpenShop
  | SetDistance int
  | ActivateImmortality
  | ParticleBurst vec3 string

text \<open>
  The constants of the \<open>types\<close> and \<open>store\<close> modules that the two components
  import; their values are not part of the modelled sources, so they are parameters.
\<close>

record config =
  LANE_WIDTH :: real
  SPAWN_DISTANCE :: real
  REMOVE_DISTANCE :: real
  TARGET_WORD :: string
  THEME_COLORS :: "string list"

text \<open>
  The fields of the store that the components read through \<open>useStore()\<close>. A
  component sees the values of its last render, so they are constant during one
  callback.
\<close>

record store =
  status :: GameStatus
  score :: int
  lives :: int
  maxLives :: int
  level :: int
  speed :: real
  laneCount :: int
  collectedLetters :: "nat list"
  distance :: real
  hasDoubleJump :: bool
  isImmortalityActive :: bool

subsection \<open>Player\<close>

definition GRAVITY :: real where "GRAVITY = 50"
definition JUMP_FORCE :: real where "JUMP_FORCE = 16"

text \<open>
  The refs and state of the \<open>Player\<close> component. \<open>posX\<close> and \<open>posY\<close> are
  \<open>groupRef.current.position.x\<close> and \<open>.y\<close>; \<open>lastDamageTime\<close> is a \<open>Date.now()\<close>
  reading in milliseconds.
\<close>

record player =
  lane :: int
  targetX :: real
  posX :: real
  posY :: real
  isJumping :: bool
  velocityY :: real
  jumpsPerformed :: int
  spinRotation :: real
  isInvincible :: bool
  lastDamageTime :: int

definition initialPlayer :: player where
  "initialPlayer = \<lparr> lane = 0, targetX = 0, posX = 0, posY = 0, isJumping = False,
     velocityY = 0, jumpsPerformed = 0, spinRotation = 0, isInvincible = False,
     lastDamageTime = 0 \<rparr>"

text \<open>The effect on \<open>[status]\<close>: entering \<open>PLAYING\<close> resets the jump state.\<close>

definition player_statusEffect :: "bool \<Rightarrow> store \<Rightarrow> player \<Rightarrow> player" where
  "player_statusEffect groupMounted s p =
     (if status s = PLAYING then
        (let p1 = p\<lparr> isJumping := False, jumpsPerformed := 0, velocityY := 0,
                      spinRotation := 0 \<rparr>
         in if groupMounted then p1\<lparr> posY := 0 \<rparr> else p1)
      else p)"

text \<open>The effect on \<open>[laneCount, lane]\<close>: the lane is clamped to the lane count.\<close>

definition player_laneEffect :: "store \<Rightarrow> player \<Rightarrow> player" where
  "player_laneEffect s p =
     (let maxLane = laneCount s div 2 in
      if \<bar>lane p\<bar> > maxLane then p\<lparr> lane := max (min (lane p) maxLane) (- maxLane) \<rparr>
      else p)"

definition triggerJump :: "store \<Rightarrow> player \<Rightarrow> call list \<times> player" where
  "triggerJump s p =
     (let maxJumps = (if hasDoubleJump s then 2 else 1) in
      if \<not> isJumping p then
        ([PlayJump False],
         p\<lparr> isJumping := True, jumpsPerformed := 1, velocityY := JUMP_FORCE \<rparr>)
      else if jumpsPerformed p < maxJumps then
        ([PlayJump True],
         p\<lparr> jumpsPerformed := jumpsPerformed p + 1, velocityY := JUMP_FORCE,
            spinRotation := 0 \<rparr>)
      else ([], p))"

definition handleKeyDown :: "store \<Rightarrow> string \<Rightarrow> player \<Rightarrow> call list \<times> player" where
  "handleKeyDown s k p =
     (if status s \<noteq> PLAYING then ([], p)
      else
        (let maxLane = laneCount s div 2 in
         if k = ''ArrowLeft'' then ([], p\<lparr> lane := max (lane p - 1) (- maxLane) \<rparr>)
         else if k = ''ArrowRight'' then ([], p\<lparr> lane := min (lane p + 1) maxLane \<rparr>)
         else if k = ''ArrowUp'' \<or> k = ''w'' then triggerJump s p
         else if k = '' '' \<or> k = ''Enter'' then ([ActivateImmortality], p)
         else ([], p)))"

text \<open>\<open>THREE.MathUtils.lerp(x, y, t)\<close>.\<close>

definition lerp :: "real \<Rightarrow> real \<Rightarrow> real \<Rightarrow> real" where
  "lerp a b t = (1 - t) * a + t * b"

text \<open>
  Step 2 of the frame callback (\<open>// 2. Physics (Jump)\<close>): the height is advanced
  with the velocity of the previous frame, the velocity is decreased afterwards, and a
  height at or below the ground lands the player. \<open>bodyMounted\<close> is
  \<open>bodyRef.current\<close> being present.
\<close>

definition player_physics :: "bool \<Rightarrow> real \<Rightarrow> player \<Rightarrow> player" where
  "player_physics bodyMounted delta p =
     (if isJumping p then
        (let p1 = p\<lparr> posY := posY p + velocityY p * delta \<rparr>;
             p2 = p1\<lparr> velocityY := velocityY p1 - GRAVITY * delta \<rparr>;
             p3 = (if posY p2 \<le> 0 then
                     p2\<lparr> posY := 0, isJumping := False, jumpsPerformed := 0,
                         velocityY := 0 \<rparr>
                   else p2)
         in if jumpsPerformed p3 = 2 \<and> bodyMounted then
              (let s = spinRotation p3 - delta * 15 in
               p3\<lparr> spinRotation := (if s < - pi * 2 then - pi * 2 else s) \<rparr>)
            else p3)
      else p)"

text \<open>
  The \<open>useFrame\<close> callback of the player. \<open>delta\<close> is the frame's elapsed time as
  react-three-fiber passes it; the callback uses it as it comes. \<open>now\<close> is
  \<open>Date.now()\<close>.
\<close>

definition player_useFrame ::
  "config \<Rightarrow> store \<Rightarrow> bool \<Rightarrow> bool \<Rightarrow> int \<Rightarrow> real \<Rightarrow> player \<Rightarrow> player" where
  "player_useFrame cfg s groupMounted bodyMounted now delta p =
     (if \<not> groupMounted then p
      else if status s \<noteq> PLAYING \<and> status s \<noteq> SHOP then p
      else
        (let p1 = p\<lparr> targetX := real_of_int (lane p) * LANE_WIDTH cfg \<rparr>;
             p2 = p1\<lparr> posX := lerp (posX p1) (targetX p1) (delta * 15) \<rparr>;
             p3 = player_physics bodyMounted delta p2;
             showFlicker = (isInvincible p3 \<or> isImmortalityActive s)
         in if showFlicker then
              (if isInvincible p3 then
                 (if now - lastDamageTime p3 > 1500 then p3\<lparr> isInvincible := False \<rparr>
                  else p3)
               else p3)
            else p3))"

text \<open>The listener of the \<open>player-hit\<close> event.\<close>

definition checkHit :: "store \<Rightarrow> int \<Rightarrow> player \<Rightarrow> call list \<times> player" where
  "checkHit s now p =
     (if isInvincible p \<or> isImmortalityActive s then ([], p)
      else ([PlayDamage, TakeDamage], p\<lparr> isInvincible := True, lastDamageTime := now \<rparr>))"

subsection \<open>LevelManager: entities and constants\<close>

text \<open>
  A \<open>GameObject\<close>. Optional properties of the source object are \<open>option\<close> values
  (\<open>None\<close> is \<open>undefined\<close>); \<open>obj_value\<close> is the property \<open>value\<close>, \<open>obj_id\<close> the
  property \<open>id\<close> (the n-th result of \<open>uuidv4()\<close> is the number n).
\<close>

record GameObject =
  obj_id :: nat
  obj_type :: ObjectType
  position :: vec3
  active :: bool
  color :: "string option"
  hasFired :: "bool option"
  points :: "real option"
  obj_value :: "char option"
  targetIndex :: "nat option"

definition BASE_LETTER_INTERVAL :: real where "BASE_LETTER_INTERVAL = 150"
definition MISSILE_SPEED :: real where "MISSILE_SPEED = 20"

text \<open>
  \<open>Math.pow(1.5, Math.max(0, level - 1))\<close> for an integer level: the exponent is a
  natural number.
\<close>

definition getLetterInterval :: "int \<Rightarrow> real" where
  "getLetterInterval lv = BASE_LETTER_INTERVAL * (3 / 2) ^ nat (max 0 (lv - 1))"

text \<open>\<open>getRandomLane\<close>, with the result \<open>r\<close> of its \<open>Math.random()\<close> call.\<close>

definition getRandomLane :: "int \<Rightarrow> real \<Rightarrow> int" where
  "getRandomLane lc r = (let mx = lc div 2 in \<lfloor>r * real_of_int (mx * 2 + 1)\<rfloor> - mx)"

text \<open>Reading an array at an index: \<open>undefined\<close> outside the array.\<close>

definition js_index :: "'a list \<Rightarrow> int \<Rightarrow> 'a option" where
  "js_index xs i = (if 0 \<le> i \<and> i < int (length xs) then Some (xs ! nat i) else None)"

text \<open>\<open>obj.points || 50\<close> and \<open>obj.color || '#ff9900'\<close>.\<close>

definition pointsOr :: "real option \<Rightarrow> real \<Rightarrow> real" where
  "pointsOr v d = (case v of None \<Rightarrow> d | Some n \<Rightarrow> if n = 0 then d else n)"

definition colorOr :: "string option \<Rightarrow> string \<Rightarrow> string" where
  "colorOr v d = (case v of None \<Rightarrow> d | Some c \<Rightarrow> if c = [] then d else c)"

text \<open>\<open>!obj.hasFired\<close> is true for \<open>undefined\<close> and for \<open>false\<close>.\<close>

definition notFired :: "bool option \<Rightarrow> bool" where
  "notFired v = (case v of None \<Rightarrow> True | Some b \<Rightarrow> \<not> b)"

text \<open>
  The refs of the \<open>LevelManager\<close>. \<open>uuidCount\<close> and \<open>randomCount\<close> count the calls
  of \<open>uuidv4()\<close> and \<open>Math.random()\<close> made so far; the n-th random number is
  \<open>rnd n\<close> for a sequence \<open>rnd\<close> given from outside.
\<close>

record levelManager =
  objects :: "GameObject list"
  renderTrigger :: nat
  prevStatus :: GameStatus
  prevLevel :: int
  distanceTraveled :: real
  nextLetterDistance :: real
  uuidCount :: nat
  randomCount :: nat

definition initialLevelManager :: "store \<Rightarrow> levelManager" where
  "initialLevelManager s = \<lparr> objects = [], renderTrigger = 0, prevStatus = status s,
     prevLevel = level s, distanceTraveled = 0, nextLetterDistance = BASE_LETTER_INTERVAL,
     uuidCount = 0, randomCount = 0 \<rparr>"

subsection \<open>LevelManager: the effect on status and level\<close>

definition shopPortal :: "nat \<Rightarrow> GameObject" where
  "shopPortal n = \<lparr> obj_id = n, obj_type = SHOP_PORTAL, position = (0, 0, - 100),
     active = True, color = None, hasFired = None, points = None, obj_value = None,
     targetIndex = None \<rparr>"

definition levelManager_effect :: "config \<Rightarrow> store \<Rightarrow> levelManager \<Rightarrow> call list \<times> levelManager" where
  "levelManager_effect cfg s lm =
     (let isRestart = (status s = PLAYING \<and> prevStatus lm = GAME_OVER);
          isMenuReset = (status s = MENU);
          isLevelUp = (level s \<noteq> prevLevel lm \<and> status s = PLAYING);
          isVictoryReset = (status s = PLAYING \<and> prevStatus lm = VICTORY);
          r = (if isMenuReset \<or> isRestart \<or> isVictoryReset then
                 ([], lm\<lparr> objects := [], renderTrigger := renderTrigger lm + 1,
                           distanceTraveled := 0,
                           nextLetterDistance := getLetterInterval 1 \<rparr>)
               else if isLevelUp \<and> level s > 1 then
                 ([], lm\<lparr> objects :=
                             filter (\<lambda>obj. vz (position obj) > - 80) (objects lm)
                               @ [shopPortal (uuidCount lm)],
                           uuidCount := uuidCount lm + 1,
                           nextLetterDistance :=
                             distanceTraveled lm - SPAWN_DISTANCE cfg
                               + getLetterInterval (level s),
                           renderTrigger := renderTrigger lm + 1 \<rparr>)
               else if status s = GAME_OVER \<or> status s = VICTORY then
                 ([SetDistance \<lfloor>distanceTraveled lm\<rfloor>], lm)
               else ([], lm))
      in (fst r, (snd r)\<lparr> prevStatus := status s, prevLevel := level s \<rparr>))"

subsection \<open>LevelManager: the frame callback, the loop over the entities\<close>

text \<open>
  The local variables of the frame callback that the loop over \<open>currentObjects\<close>
  changes. \<open>visited\<close> holds the entities of \<open>currentObjects\<close> as the loop has left
  them (the loop mutates them in place), \<open>calls\<close> the calls made, \<open>plr\<close> the player
  refs that the \<open>player-hit\<close> listener writes.
\<close>

record frameLoop =
  keptObjects :: "GameObject list"
  newSpawns :: "GameObject list"
  hasChanges :: bool
  visited :: "GameObject list"
  calls :: "call list"
  plr :: player
  uuids :: nat

definition firedMissile :: "nat \<Rightarrow> GameObject \<Rightarrow> GameObject" where
  "firedMissile n obj = \<lparr> obj_id = n, obj_type = MISSILE,
     position = (vx (position obj), 1, vz (position obj) + 2), active = True,
     color = Some ''#8b0000'', hasFired = None, points = None, obj_value = None,
     targetIndex = None \<rparr>"

text \<open>The first statements of the loop body: the entity moves forward.\<close>

definition moveAmount :: "real \<Rightarrow> real \<Rightarrow> GameObject \<Rightarrow> real" where
  "moveAmount frameDist safeDelta obj =
     (if obj_type obj = MISSILE then frameDist + MISSILE_SPEED * safeDelta else frameDist)"

definition advance :: "real \<Rightarrow> real \<Rightarrow> GameObject \<Rightarrow> GameObject" where
  "advance frameDist safeDelta obj =
     obj\<lparr> position := (vx (position obj), vy (position obj),
                         vz (position obj) + moveAmount frameDist safeDelta obj) \<rparr>"

text \<open>
  The block \<open>// Scarecrow Logic\<close> of the loop body, for an entity that has already
  moved: an active scarecrow that has not fired yet fires once it is nearer than 90.
\<close>

definition scarecrowLogic :: "GameObject \<Rightarrow> frameLoop \<Rightarrow> GameObject \<times> frameLoop" where
  "scarecrowLogic obj acc =
     (if obj_type obj = ALIEN \<and> active obj \<and> notFired (hasFired obj) then
        (if vz (position obj) > - 90 then
           (obj\<lparr> hasFired := Some True \<rparr>,
            acc\<lparr> newSpawns := newSpawns acc @ [firedMissile (uuids acc) obj],
                 uuids := uuids acc + 1, hasChanges := True \<rparr>)
         else (obj, acc))
      else (obj, acc))"

text \<open>
  The block \<open>if (obj.active) { ... }\<close> of the loop body, for an entity that has
  already moved; \<open>prevZ\<close> is its forward distance before the move. The result is the
  entity, the variable \<open>keep\<close> and the changed locals.
\<close>

definition collide ::
  "store \<Rightarrow> vec3 \<Rightarrow> int \<Rightarrow> real \<Rightarrow> GameObject \<Rightarrow> frameLoop \<Rightarrow> GameObject \<times> bool \<times> frameLoop" where
  "collide s playerPos now prevZ obj acc =
     (if active obj then
        (let zThreshold = 2;
             inZZone = (prevZ < vz playerPos + zThreshold
                        \<and> vz (position obj) > vz playerPos - zThreshold)
         in if obj_type obj = SHOP_PORTAL then
              (let dz = \<bar>vz (position obj) - vz playerPos\<bar> in
               if dz < 2 then
                 (obj\<lparr> active := False \<rparr>, False,
                  acc\<lparr> calls := calls acc @ [OpenShop], hasChanges := True \<rparr>)
               else (obj, True, acc))
            else if inZZone then
              (let dx = \<bar>vx (position obj) - vx playerPos\<bar> in
               if dx < 9 / 10 then
                 (let isDamageSource = (obj_type obj = OBSTACLE \<or> obj_type obj = ALIEN
                                        \<or> obj_type obj = MISSILE)
                  in if isDamageSource then
                       (let playerBottom = vy playerPos;
                            playerTop = vy playerPos + 16 / 10;
                            objBottom = (if obj_type obj = OBSTACLE then 0
                                         else if obj_type obj = MISSILE then 1 / 2
                                         else vy (position obj) - 1 / 2);
                            objTop = (if obj_type obj = OBSTACLE then 14 / 10
                                      else if obj_type obj = MISSILE then 15 / 10
                                      else vy (position obj) + 1 / 2)
                        in if playerBottom < objTop \<and> playerTop > objBottom then
                             (let h = checkHit s now (plr acc) in
                              (obj\<lparr> active := False \<rparr>, True,
                               acc\<lparr> calls := calls acc @ fst h
                                              @ [ParticleBurst (position obj) ''#deb887''],
                                    plr := snd h, hasChanges := True \<rparr>))
                           else (obj, True, acc))
                     else
                       (let dy = \<bar>vy (position obj) - vy playerPos\<bar> in
                        if dy < 25 / 10 then
                          (let gemCalls = (if obj_type obj = GEM then
                                             [CollectGem (pointsOr (points obj) 50),
                                              PlayGemCollect]
                                           else []);
                               letterCalls = (if obj_type obj = LETTER then
                                                (case targetIndex obj of
                                                   None \<Rightarrow> []
                                                 | Some i \<Rightarrow> [CollectLetter i,
                                                               PlayLetterCollect])
                                              else [])
                           in (obj\<lparr> active := False \<rparr>, True,
                               acc\<lparr> calls := calls acc @ gemCalls @ letterCalls
                                              @ [ParticleBurst (position obj)
                                                   (colorOr (color obj) ''#ff9900'')],
                                    hasChanges := True \<rparr>))
                        else (obj, True, acc)))
               else (obj, True, acc))
            else (obj, True, acc))
      else (obj, True, acc))"

text \<open>One iteration of \<open>for (const obj of currentObjects)\<close>.\<close>

definition loopBody ::
  "config \<Rightarrow> store \<Rightarrow> vec3 \<Rightarrow> int \<Rightarrow> real \<Rightarrow> real \<Rightarrow> GameObject \<Rightarrow> frameLoop \<Rightarrow> frameLoop" where
  "loopBody cfg s playerPos now safeDelta frameDist obj0 acc =
     (let prevZ = vz (position obj0);
          obj1 = advance frameDist safeDelta obj0;
          f = scarecrowLogic obj1 acc;
          c = collide s playerPos now prevZ (fst f) (snd f);
          obj3 = fst c;
          keep1 = fst (snd c);
          acc2 = snd (snd c);
          removed = (vz (position obj3) > REMOVE_DISTANCE cfg);
          keep2 = (if removed then False else keep1);
          acc3 = (if removed then acc2\<lparr> hasChanges := True \<rparr> else acc2)
      in acc3\<lparr> keptObjects := (if keep2 then keptObjects acc3 @ [obj3] else keptObjects acc3),
               visited := visited acc3 @ [obj3] \<rparr>)"

fun forLoop ::
  "config \<Rightarrow> store \<Rightarrow> vec3 \<Rightarrow> int \<Rightarrow> real \<Rightarrow> real \<Rightarrow> GameObject list \<Rightarrow> frameLoop \<Rightarrow> frameLoop" where
  "forLoop cfg s playerPos now safeDelta frameDist [] acc = acc"
| "forLoop cfg s playerPos now safeDelta frameDist (obj # rest) acc =
     forLoop cfg s playerPos now safeDelta frameDist rest
       (loopBody cfg s playerPos now safeDelta frameDist obj acc)"

subsection \<open>LevelManager: the frame callback, spawning\<close>

text \<open>
  \<open>furthestZ\<close>: the least forward distance among the entities that are not
  missiles, and \<open>-20\<close> when there is none.
\<close>

definition furthestZ :: "GameObject list \<Rightarrow> real" where
  "furthestZ keptObjs =
     (let staticObjects = filter (\<lambda>obj. obj_type obj \<noteq> MISSILE) keptObjs in
      case staticObjects of
        [] \<Rightarrow> - 20
      | obj # rest \<Rightarrow> fold min (map (\<lambda>r. vz (position r)) rest) (vz (position obj)))"

text \<open>\<open>TARGET_WORD.map((_, i) => i).filter(i => !collectedLetters.includes(i))\<close>.\<close>

definition availableIndices :: "config \<Rightarrow> store \<Rightarrow> nat list" where
  "availableIndices cfg s =
     filter (\<lambda>i. i \<notin> set (collectedLetters s)) [0..<length (TARGET_WORD cfg)]"

definition letterObject ::
  "nat \<Rightarrow> vec3 \<Rightarrow> string option \<Rightarrow> char option \<Rightarrow> nat option \<Rightarrow> GameObject" where
  "letterObject n pos col val idx = \<lparr> obj_id = n, obj_type = LETTER, position = pos,
     active = True, color = col, hasFired = None, points = None, obj_value = val,
     targetIndex = idx \<rparr>"

definition gemObject :: "nat \<Rightarrow> vec3 \<Rightarrow> real \<Rightarrow> GameObject" where
  "gemObject n pos pts = \<lparr> obj_id = n, obj_type = GEM, position = pos, active = True,
     color = Some ''#ff9900'', hasFired = None, points = Some pts, obj_value = None,
     targetIndex = None \<rparr>"

definition alienObject :: "nat \<Rightarrow> vec3 \<Rightarrow> GameObject" where
  "alienObject n pos = \<lparr> obj_id = n, obj_type = ALIEN, position = pos, active = True,
     color = Some ''#8b4513'', hasFired = Some False, points = None, obj_value = None,
     targetIndex = None \<rparr>"

definition obstacleObject :: "nat \<Rightarrow> vec3 \<Rightarrow> GameObject" where
  "obstacleObject n pos = \<lparr> obj_id = n, obj_type = OBSTACLE, position = pos,
     active = True, color = Some ''#deb887'', hasFired = None, points = None,
     obj_value = None, targetIndex = None \<rparr>"

text \<open>
  What the block \<open>// Spawning\<close> does: the entities it pushes onto \<open>keptObjects\<close>,
  the value it leaves in \<open>nextLetterDistance\<close>, whether it sets \<open>hasChanges\<close>, and
  the numbers of \<open>uuidv4()\<close> and \<open>Math.random()\<close> calls afterwards.
\<close>

record spawnResult =
  spawned :: "GameObject list"
  threshold :: real
  spawnChanges :: bool
  uuidsAfter :: nat
  randomsAfter :: nat

text \<open>
  \<open>travelled\<close> is \<open>distanceTraveled.current\<close>, \<open>nextLetter\<close> is
  \<open>nextLetterDistance.current\<close>, \<open>u\<close> and \<open>k\<close> are the numbers of identifiers and
  random numbers used so far, \<open>keptObjs\<close> is \<open>keptObjects\<close> after the loop, the
  fired missiles included.
\<close>

definition spawnStep ::
  "config \<Rightarrow> store \<Rightarrow> (nat \<Rightarrow> real) \<Rightarrow> real \<Rightarrow> real \<Rightarrow> nat \<Rightarrow> nat \<Rightarrow> GameObject list \<Rightarrow> spawnResult" where
  "spawnStep cfg s rnd travelled nextLetter u k keptObjs =
     (let fz = furthestZ keptObjs in
      if fz > - SPAWN_DISTANCE cfg then
        (let minGap = 12 + speed s * (4 / 10);
             spawnZ = min (fz - minGap) (- SPAWN_DISTANCE cfg);
             isLetterDue = (travelled \<ge> nextLetter)
         in if isLetterDue then
              (let ln = getRandomLane (laneCount s) (rnd k);
                   avail = availableIndices cfg s
               in if length avail > 0 then
                    (let chosenIndex =
                           js_index avail \<lfloor>rnd (k + 1) * real (length avail)\<rfloor>;
                         val = (case chosenIndex of None \<Rightarrow> None
                                | Some i \<Rightarrow> js_index (TARGET_WORD cfg) (int i));
                         col = (case chosenIndex of None \<Rightarrow> None
                                | Some i \<Rightarrow> js_index (THEME_COLORS cfg) (int i))
                     in \<lparr> spawned = [letterObject u
                                         (real_of_int ln * LANE_WIDTH cfg, 1, spawnZ)
                                         col val chosenIndex],
                          threshold = nextLetter + getLetterInterval (level s),
                          spawnChanges = True, uuidsAfter = u + 1,
                          randomsAfter = k + 2 \<rparr>)
                  else
                    \<lparr> spawned = [gemObject u
                                    (real_of_int ln * LANE_WIDTH cfg, 12 / 10, spawnZ) 50],
                      threshold = nextLetter, spawnChanges = True, uuidsAfter = u + 1,
                      randomsAfter = k + 1 \<rparr>)
            else if rnd k > 1 / 10 then
              (let isObstacle = (rnd (k + 1) > 2 / 10) in
               if isObstacle then
                 (let spawnAlien = (level s \<ge> 2 \<and> rnd (k + 2) < 2 / 10);
                      k3 = (if level s \<ge> 2 then k + 3 else k + 2)
                  in if spawnAlien then
                       \<lparr> spawned = [alienObject u
                                       (real_of_int (getRandomLane (laneCount s) (rnd k3))
                                          * LANE_WIDTH cfg, 0, spawnZ)],
                         threshold = nextLetter, spawnChanges = True, uuidsAfter = u + 1,
                         randomsAfter = k3 + 1 \<rparr>
                     else
                       (let ln = getRandomLane (laneCount s) (rnd k3);
                            obstacle = obstacleObject u
                                         (real_of_int ln * LANE_WIDTH cfg, 7 / 10, spawnZ)
                        in if rnd (k3 + 1) < 3 / 10 then
                             \<lparr> spawned = [obstacle,
                                           gemObject (u + 1)
                                             (real_of_int ln * LANE_WIDTH cfg, 24 / 10,
                                              spawnZ) 100],
                               threshold = nextLetter, spawnChanges = True,
                               uuidsAfter = u + 2, randomsAfter = k3 + 2 \<rparr>
                           else
                             \<lparr> spawned = [obstacle], threshold = nextLetter,
                               spawnChanges = True, uuidsAfter = u + 1,
                               randomsAfter = k3 + 2 \<rparr>))
               else
                 (let ln = getRandomLane (laneCount s) (rnd (k + 2)) in
                  \<lparr> spawned = [gemObject u
                                  (real_of_int ln * LANE_WIDTH cfg, 12 / 10, spawnZ) 50],
                    threshold = nextLetter, spawnChanges = True, uuidsAfter = u + 1,
                    randomsAfter = k + 3 \<rparr>))
            else
              \<lparr> spawned = [], threshold = nextLetter, spawnChanges = False,
                uuidsAfter = u, randomsAfter = k + 1 \<rparr>)
      else
        \<lparr> spawned = [], threshold = nextLetter, spawnChanges = False, uuidsAfter = u,
          randomsAfter = k \<rparr>)"

subsection \<open>LevelManager: the frame callback as a whole\<close>

definition safeDelta :: "real \<Rightarrow> real" where
  "safeDelta delta = min delta (5 / 100)"

text \<open>The locals after the loop over the entities of \<open>objectsRef.current\<close>.\<close>

definition frameAfterLoop ::
  "config \<Rightarrow> store \<Rightarrow> vec3 \<Rightarrow> int \<Rightarrow> real \<Rightarrow> levelManager \<Rightarrow> player \<Rightarrow> frameLoop" where
  "frameAfterLoop cfg s playerPos now delta lm p =
     forLoop cfg s playerPos now (safeDelta delta) (speed s * safeDelta delta) (objects lm)
       \<lparr> keptObjects = [], newSpawns = [], hasChanges = False, visited = [], calls = [],
         plr = p, uuids = uuidCount lm \<rparr>"

text \<open>The result of the spawning block of the same frame.\<close>

definition frameSpawn ::
  "config \<Rightarrow> store \<Rightarrow> (nat \<Rightarrow> real) \<Rightarrow> vec3 \<Rightarrow> int \<Rightarrow> real \<Rightarrow> levelManager \<Rightarrow> player \<Rightarrow> spawnResult" where
  "frameSpawn cfg s rnd playerPos now delta lm p =
     (let acc = frameAfterLoop cfg s playerPos now delta lm p in
      spawnStep cfg s rnd (distanceTraveled lm + speed s * safeDelta delta)
        (nextLetterDistance lm) (uuids acc) (randomCount lm)
        (keptObjects acc @ newSpawns acc))"

text \<open>
  The second \<open>useFrame\<close> callback of the \<open>LevelManager\<close>. \<open>playerPos\<close> is the world
  position read from the player object at the start of the callback (the origin when
  the object is not found), \<open>now\<close> the time the \<open>player-hit\<close> listener reads. When
  \<open>hasChanges\<close> stays false, \<open>objectsRef.current\<close> keeps its array, whose entities
  have moved all the same.
\<close>

definition levelManager_useFrame ::
  "config \<Rightarrow> store \<Rightarrow> (nat \<Rightarrow> real) \<Rightarrow> vec3 \<Rightarrow> int \<Rightarrow> real \<Rightarrow> levelManager \<Rightarrow> player
     \<Rightarrow> call list \<times> levelManager \<times> player" where
  "levelManager_useFrame cfg s rnd playerPos now delta lm p =
     (if status s \<noteq> PLAYING then ([], lm, p)
      else
        (let acc = frameAfterLoop cfg s playerPos now delta lm p;
             sp = frameSpawn cfg s rnd playerPos now delta lm p;
             changes = (hasChanges acc \<or> spawnChanges sp)
         in (calls acc,
             lm\<lparr> distanceTraveled := distanceTraveled lm + speed s * safeDelta delta,
                 nextLetterDistance := threshold sp,
                 uuidCount := uuidsAfter sp,
                 randomCount := randomsAfter sp,
                 objects := (if changes then keptObjects acc @ newSpawns acc @ spawned sp
                             else visited acc),
                 renderTrigger := (if changes then renderTrigger lm + 1
                                   else renderTrigger lm) \<rparr>,
             plr acc)))"

subsection \<open>The store's restart\<close>

text \<open>
  Modelled from the spec: \<open>restartGame\<close> is an action of the store module, which is not
  among the sources (only its caller, the restart buttons of the HUD's game-over and
  victory screens, is). The spec: a full restart resets score to 0, lives to base
  maxLives, level to 1, collected letters to empty and distance to 0, and re-enters
  Playing directly. \<open>baseLives\<close> is the base number of lives.
\<close>

definition restartGame :: "int \<Rightarrow> store \<Rightarrow> store" where
  "restartGame baseLives s =
     s\<lparr> status := PLAYING, score := 0, lives := baseLives, maxLives := baseLives,
        level := 1, collectedLetters := [], distance := 0 \<rparr>"

subsection \<open>Invariants and reference predicates\<close>

text \<open>
  The jump invariant: an airborne player has performed at least one jump; a grounded
  player has jump count zero and no vertical velocity.
\<close>

definition jumpInv :: "player \<Rightarrow> bool" where
  "jumpInv p =
     (if isJumping p then jumpsPerformed p \<ge> 1
      else jumpsPerformed p = 0 \<and> velocityY p = 0)"

text \<open>
  The player states that the component can reach from its initial refs through its
  effects, its input handlers, its frame callback and its \<open>player-hit\<close> listener.
  A swipe changes the lane or jumps as the arrow keys do, and a tap activates the skill
  as the space key does, so the key handler stands for the touch handler too.
\<close>

inductive reachable :: "player \<Rightarrow> bool" where
  r_init: "reachable initialPlayer"
| r_status: "reachable p \<Longrightarrow> reachable (player_statusEffect g s p)"
| r_lane: "reachable p \<Longrightarrow> reachable (player_laneEffect s p)"
| r_jump: "reachable p \<Longrightarrow> reachable (snd (triggerJump s p))"
| r_key: "reachable p \<Longrightarrow> reachable (snd (handleKeyDown s k p))"
| r_frame: "reachable p \<Longrightarrow> reachable (player_useFrame cfg s g b now delta p)"
| r_hit: "reachable p \<Longrightarrow> reachable (snd (checkHit s now p))"

text \<open>
  The vertical integration in the order the specification writes it, on a pair of
  velocity and height: \<open>velocity -= GRAVITY * dt; height += velocity * dt\<close>.
\<close>

definition spec_integrate :: "real \<Rightarrow> real \<times> real \<Rightarrow> real \<times> real" where
  "spec_integrate dt vh =
     (let v = fst vh - GRAVITY * dt; h = snd vh + v * dt in (v, h))"

text \<open>
  The hit test in the words of the specification: the forward-distance interval from
  the previous z to the current z straddles the player's forward position within the
  tolerance, the lateral offsets differ by less than the threshold, and the vertical
  bands overlap (the player's band reaches from the feet to 1.6 above them).
\<close>

definition bandsOverlap :: "real \<times> real \<Rightarrow> real \<times> real \<Rightarrow> bool" where
  "bandsOverlap a b = (fst a < snd b \<and> snd a > fst b)"

definition longitudinalStraddle :: "vec3 \<Rightarrow> real \<Rightarrow> GameObject \<Rightarrow> bool" where
  "longitudinalStraddle playerPos prevZ obj =
     (prevZ < vz playerPos + 2 \<and> vz (position obj) > vz playerPos - 2)"

definition lateralOverlap :: "vec3 \<Rightarrow> GameObject \<Rightarrow> bool" where
  "lateralOverlap playerPos obj = (\<bar>vx (position obj) - vx playerPos\<bar> < 9 / 10)"

definition verticalOverlap :: "vec3 \<Rightarrow> GameObject \<Rightarrow> bool" where
  "verticalOverlap playerPos obj =
     (case obj_type obj of
        OBSTACLE \<Rightarrow> bandsOverlap (vy playerPos, vy playerPos + 16 / 10) (0, 14 / 10)
      | MISSILE \<Rightarrow> bandsOverlap (vy playerPos, vy playerPos + 16 / 10) (1 / 2, 15 / 10)
      | ALIEN \<Rightarrow> bandsOverlap (vy playerPos, vy playerPos + 16 / 10)
                   (vy (position obj) - 1 / 2, vy (position obj) + 1 / 2)
      | _ \<Rightarrow> \<bar>vy (position obj) - vy playerPos\<bar> < 25 / 10)"

definition spec_hit :: "vec3 \<Rightarrow> real \<Rightarrow> GameObject \<Rightarrow> bool" where
  "spec_hit playerPos prevZ obj =
     (longitudinalStraddle playerPos prevZ obj \<and> lateralOverlap playerPos obj
      \<and> verticalOverlap playerPos obj)"

definition isDamageSource :: "GameObject \<Rightarrow> bool" where
  "isDamageSource obj =
     (obj_type obj = OBSTACLE \<or> obj_type obj = ALIEN \<or> obj_type obj = MISSILE)"

text \<open>What identifies an entity and where it is: identifier, kind and position.\<close>

definition entityKey :: "GameObject \<Rightarrow> nat \<times> ObjectType \<times> vec3" where
  "entityKey obj = (obj_id obj, obj_type obj, position obj)"

text \<open>
  An active portal that the frame's movement brings within the portal's proximity of
  the player's forward position.
\<close>

definition portalInReach :: "real \<Rightarrow> vec3 \<Rightarrow> GameObject \<Rightarrow> bool" where
  "portalInReach frameDist playerPos obj =
     (active obj \<and> obj_type obj = SHOP_PORTAL
      \<and> \<bar>vz (position obj) + frameDist - vz playerPos\<bar> < 2)"

text \<open>An entity that is an active portal.\<close>

definition isActivePortal :: "GameObject \<Rightarrow> bool" where
  "isActivePortal obj = (active obj \<and> obj_type obj = SHOP_PORTAL)"

text \<open>Every index of the target word is among the collected letters.\<close>

definition lettersComplete :: "config \<Rightarrow> store \<Rightarrow> bool" where
  "lettersComplete cfg s = (availableIndices cfg s = [])"

text \<open>
  The collectible that the spawning block pushes when a letter is due but none is left,
  and when the probabilistic branch chooses a lone collectible: the same object but
  for the random number \<open>r\<close> that picks its lane.
\<close>

definition plainGem :: "config \<Rightarrow> store \<Rightarrow> real \<Rightarrow> nat \<Rightarrow> GameObject list \<Rightarrow> GameObject" where
  "plainGem cfg s r u keptObjs =
     gemObject u
       (real_of_int (getRandomLane (laneCount s) r) * LANE_WIDTH cfg, 12 / 10,
        min (furthestZ keptObjs - (12 + speed s * (4 / 10))) (- SPAWN_DISTANCE cfg))
       50"

text \<open>
  A run of frames of the level manager: each frame comes with the store values of its
  render, its random numbers, the player position and player refs at that frame, the
  time and the elapsed time.
\<close>

record frameInput =
  in_store :: store
  in_rnd :: "nat \<Rightarrow> real"
  in_playerPos :: vec3
  in_now :: int
  in_delta :: real
  in_player :: player

fun runFrames :: "config \<Rightarrow> frameInput list \<Rightarrow> levelManager \<Rightarrow> levelManager" where
  "runFrames cfg [] lm = lm"
| "runFrames cfg (f # fs) lm =
     runFrames cfg fs
       (fst (snd (levelManager_useFrame cfg (in_store f) (in_rnd f) (in_playerPos f)
                    (in_now f) (in_delta f) lm (in_player f))))"

text \<open>
  A frame during which the letter set is complete, with a speed and an elapsed time
  that are not negative.
\<close>

definition completeFrame :: "config \<Rightarrow> frameInput \<Rightarrow> bool" where
  "completeFrame cfg f =
     (lettersComplete cfg (in_store f) \<and> 0 \<le> speed (in_store f) \<and> 0 \<le> in_delta f)"

text \<open>A frame and its spawning block, for a frame given as one input.\<close>

abbreviation inputLoop :: "config \<Rightarrow> frameInput \<Rightarrow> levelManager \<Rightarrow> frameLoop" where
  "inputLoop cfg f lm \<equiv>
     frameAfterLoop cfg (in_store f) (in_playerPos f) (in_now f) (in_delta f) lm (in_player f)"

abbreviation inputSpawn :: "config \<Rightarrow> frameInput \<Rightarrow> levelManager \<Rightarrow> spawnResult" where
  "inputSpawn cfg f lm \<equiv>
     frameSpawn cfg (in_store f) (in_rnd f) (in_playerPos f) (in_now f) (in_delta f) lm
       (in_player f)"

subsection \<open>Example values\<close>

text \<open>
  Values for the parameters and example states, used where a property is run on an
  input: a configuration, stores (a running game, one with every letter collected, one
  after a lost game), a player just after a jump from the ground and the same player
  one frame of a tenth of a second later, locals of a frame, an obstacle and a portal
  one unit ahead of the player (the portal far to the side and above), level managers
  (among them one in the middle of a run at level 2) and a frame.
\<close>

definition demoConfig :: config where
  "demoConfig = \<lparr> LANE_WIDTH = 22 / 10, SPAWN_DISTANCE = 120, REMOVE_DISTANCE = 20,
     TARGET_WORD = ''TURKEY'',
     THEME_COLORS = [''#ff4500'', ''#ffd700'', ''#8b4500'', ''#cd853f'', ''#ff9900'',
                     ''#deb887''] \<rparr>"

definition demoStore :: store where
  "demoStore = \<lparr> status = PLAYING, score = 0, lives = 3, maxLives = 3, level = 1,
     speed = 20, laneCount = 3, collectedLetters = [], distance = 0,
     hasDoubleJump = False, isImmortalityActive = False \<rparr>"

definition completeStore :: store where
  "completeStore = demoStore\<lparr> collectedLetters := [0, 1, 2, 3, 4, 5] \<rparr>"

definition endedStore :: store where
  "endedStore = \<lparr> status = GAME_OVER, score = 4250, lives = 0, maxLives = 4, level = 2,
     speed = 0, laneCount = 5, collectedLetters = [0, 2, 5], distance = 731,
     hasDoubleJump = True, isImmortalityActive = False \<rparr>"

definition jumpedPlayer :: player where
  "jumpedPlayer = snd (triggerJump demoStore initialPlayer)"

definition airbornePlayer :: player where
  "airbornePlayer = player_useFrame demoConfig demoStore True True 0 (1 / 10) jumpedPlayer"

definition demoLoop :: frameLoop where
  "demoLoop = \<lparr> keptObjects = [], newSpawns = [], hasChanges = False, visited = [],
     calls = [], plr = initialPlayer, uuids = 0 \<rparr>"

definition demoObstacle :: GameObject where
  "demoObstacle = obstacleObject 0 (0, 7 / 10, - 1)"

definition demoPortal :: GameObject where
  "demoPortal = (shopPortal 0)\<lparr> position := (5, 3, - 1) \<rparr>"

definition demoManager :: levelManager where
  "demoManager = (initialLevelManager demoStore)\<lparr> objects := [demoObstacle] \<rparr>"

definition portalManager :: levelManager where
  "portalManager = (initialLevelManager demoStore)\<lparr> objects := [demoObstacle, demoPortal] \<rparr>"

definition dueManager :: levelManager where
  "dueManager = (initialLevelManager completeStore)\<lparr> distanceTraveled := 150 \<rparr>"

definition endedManager :: levelManager where
  "endedManager = \<lparr> objects = [demoObstacle, demoPortal], renderTrigger = 12,
     prevStatus = GAME_OVER, prevLevel = 2, distanceTraveled = 7315 / 10,
     nextLetterDistance = 900, uuidCount = 40, randomCount = 90 \<rparr>"

definition runningStore :: store where
  "runningStore = endedStore\<lparr> status := PLAYING, lives := 2, speed := 25 \<rparr>"

definition runningManager :: levelManager where
  "runningManager = endedManager\<lparr> prevStatus := PLAYING \<rparr>"

definition completeInput :: frameInput where
  "completeInput = \<lparr> in_store = completeStore, in_rnd = (\<lambda>n. 1 / 2),
     in_playerPos = (0, 0, 0), in_now = 7, in_delta = 1 / 60, in_player = initialPlayer \<rparr>"

section \<open>Properties of the player\<close>

lemma jumpedPlayer_simps:
  "isJumping jumpedPlayer" "jumpsPerformed jumpedPlayer = 1" "velocityY jumpedPlayer = 16"
  "posY jumpedPlayer = 0" "isInvincible jumpedPlayer = False" "lane jumpedPlayer = 0"
  "posX jumpedPlayer = 0" "spinRotation jumpedPlayer = 0" "lastDamageTime jumpedPlayer = 0"
  by (simp_all add: jumpedPlayer_def triggerJump_def initialPlayer_def JUMP_FORCE_def)

lemma jumpInv_triggerJump: "jumpInv p \<Longrightarrow> jumpInv (snd (triggerJump s p))"
  by (auto simp: jumpInv_def triggerJump_def Let_def split: if_splits)

lemma jumpInv_physics: "jumpInv p \<Longrightarrow> jumpInv (player_physics b delta p)"
  by (auto simp: jumpInv_def player_physics_def Let_def split: if_splits)

lemma jumpInv_useFrame: "jumpInv p \<Longrightarrow> jumpInv (player_useFrame cfg s g b now delta p)"
proof -
  assume a: "jumpInv p"
  have "jumpInv (p\<lparr>targetX := t, posX := x\<rparr>)" for t x
    using a by (simp add: jumpInv_def)
  then have "jumpInv (player_physics b delta (p\<lparr>targetX := t, posX := x\<rparr>))" for t x
    by (rule jumpInv_physics)
  then show ?thesis
    using a by (simp add: player_useFrame_def Let_def jumpInv_def)
qed

lemma jumpInv_key: "jumpInv p \<Longrightarrow> jumpInv (snd (handleKeyDown s k p))"
  using jumpInv_triggerJump [of p s]
  by (simp add: handleKeyDown_def Let_def) (simp add: jumpInv_def)

lemma reachable_jumpInv: "reachable p \<Longrightarrow> jumpInv p"
proof (induction rule: reachable.induct)
  case r_init
  show ?case by (simp add: jumpInv_def initialPlayer_def)
next
  case (r_status p g s)
  then show ?case by (simp add: jumpInv_def player_statusEffect_def Let_def)
next
  case (r_lane p s)
  then show ?case by (simp add: jumpInv_def player_laneEffect_def Let_def)
next
  case (r_jump p s)
  from r_jump.IH show ?case by (rule jumpInv_triggerJump)
next
  case (r_key p s k)
  from r_key.IH show ?case by (rule jumpInv_key)
next
  case (r_frame p cfg s g b now delta)
  from r_frame.IH show ?case by (rule jumpInv_useFrame)
next
  case (r_hit p s now)
  then show ?case by (simp add: jumpInv_def checkHit_def)
qed

text \<open>
  Claim C3. A Jump command on a grounded player (jump count 0, or the flag
  \<open>isJumping\<close> unset) sets the jump count to 1 and the vertical velocity to the launch
  speed. A Jump command on an airborne player whose jump count is below the allowed
  maximum (1, or 2 with the double jump) increments the jump count and applies the
  launch speed again. A Jump command on an airborne player whose jump count has
  reached the maximum changes nothing: the player state is the same and no call is
  made.
\<close>

theorem triggerJump_cases:
  "(jumpsPerformed p = 0 \<or> \<not> isJumping p \<longrightarrow>
      jumpsPerformed (snd (triggerJump s p)) = 1
      \<and> velocityY (snd (triggerJump s p)) = JUMP_FORCE
      \<and> isJumping (snd (triggerJump s p)))
   \<and> (isJumping p \<and> jumpsPerformed p < (if hasDoubleJump s then 2 else 1) \<longrightarrow>
      jumpsPerformed (snd (triggerJump s p)) = jumpsPerformed p + 1
      \<and> velocityY (snd (triggerJump s p)) = JUMP_FORCE
      \<and> isJumping (snd (triggerJump s p)))
   \<and> (isJumping p \<and> jumpsPerformed p \<ge> (if hasDoubleJump s then 2 else 1) \<longrightarrow>
      triggerJump s p = ([], p))"
  by (simp add: triggerJump_def Let_def)

theorem triggerJump_cases_witness:
  "jumpsPerformed initialPlayer = 0
   \<and> jumpsPerformed (snd (triggerJump demoStore initialPlayer)) = 1
   \<and> isJumping jumpedPlayer
   \<and> jumpsPerformed jumpedPlayer \<ge> (if hasDoubleJump demoStore then 2 else 1)
   \<and> triggerJump demoStore jumpedPlayer = ([], jumpedPlayer)
   \<and> jumpsPerformed jumpedPlayer
        < (if hasDoubleJump (demoStore\<lparr>hasDoubleJump := True\<rparr>) then 2 else 1)
   \<and> jumpsPerformed (snd (triggerJump (demoStore\<lparr>hasDoubleJump := True\<rparr>) jumpedPlayer)) = 2"
  using triggerJump_cases [of initialPlayer demoStore]
    triggerJump_cases [of jumpedPlayer demoStore]
    triggerJump_cases [of jumpedPlayer "demoStore\<lparr>hasDoubleJump := True\<rparr>"]
  by (simp add: jumpedPlayer_simps initialPlayer_def demoStore_def)

lemma airbornePlayer_simps:
  "isJumping airbornePlayer" "posY airbornePlayer = 16 / 10" "velocityY airbornePlayer = 11"
  "jumpsPerformed airbornePlayer = 1"
  by (simp_all add: airbornePlayer_def player_useFrame_def player_physics_def Let_def
      jumpedPlayer_simps GRAVITY_def demoStore_def)

lemma reachable_airbornePlayer: "reachable airbornePlayer"
  unfolding airbornePlayer_def jumpedPlayer_def
  by (intro reachable.r_frame reachable.r_jump reachable.r_init)

text \<open>
  Claim C4, as the code has it. A physics step of an airborne player first adds
  \<open>velocity * dt\<close> to the height, with the velocity of before the step, and then
  subtracts \<open>GRAVITY * dt\<close> from the velocity. The player is grounded in two ways.
  In a step, when the new height is at or below 0, the player lands: height 0,
  velocity 0, jump count 0, grounded; otherwise the player stays airborne with the new
  height and velocity. And the effect on the status grounds the player at any height
  when the status is Playing (jump count 0, velocity 0, and height 0 when the player
  object is mounted); with another status it changes nothing. A grounded player is not
  changed by the step, the frame callback does this step when the player object is
  mounted and the status is Playing or Shop and changes nothing otherwise, and neither
  a Jump command nor the hit listener nor the lane clamp nor a key press grounds the
  player. In every reachable state a grounded player has vertical velocity zero.
\<close>

theorem player_physics_step:
  "(isJumping p \<longrightarrow>
      (if posY p + velocityY p * delta \<le> 0
       then posY (player_physics b delta p) = 0
            \<and> velocityY (player_physics b delta p) = 0
            \<and> jumpsPerformed (player_physics b delta p) = 0
            \<and> \<not> isJumping (player_physics b delta p)
       else posY (player_physics b delta p) = posY p + velocityY p * delta
            \<and> velocityY (player_physics b delta p) = velocityY p - GRAVITY * delta
            \<and> jumpsPerformed (player_physics b delta p) = jumpsPerformed p
            \<and> isJumping (player_physics b delta p)))
   \<and> (\<not> isJumping p \<longrightarrow> player_physics b delta p = p)
   \<and> (g \<and> (status s = PLAYING \<or> status s = SHOP) \<longrightarrow>
        posY (player_useFrame cfg s g b now delta p) = posY (player_physics b delta p)
        \<and> velocityY (player_useFrame cfg s g b now delta p)
            = velocityY (player_physics b delta p)
        \<and> jumpsPerformed (player_useFrame cfg s g b now delta p)
            = jumpsPerformed (player_physics b delta p)
        \<and> isJumping (player_useFrame cfg s g b now delta p)
            = isJumping (player_physics b delta p))
   \<and> (\<not> (g \<and> (status s = PLAYING \<or> status s = SHOP)) \<longrightarrow>
        player_useFrame cfg s g b now delta p = p)
   \<and> (status s = PLAYING \<longrightarrow>
        \<not> isJumping (player_statusEffect g s p)
        \<and> jumpsPerformed (player_statusEffect g s p) = 0
        \<and> velocityY (player_statusEffect g s p) = 0
        \<and> posY (player_statusEffect g s p) = (if g then 0 else posY p))
   \<and> (status s \<noteq> PLAYING \<longrightarrow> player_statusEffect g s p = p)
   \<and> isJumping (snd (triggerJump s p))
   \<and> isJumping (snd (checkHit s now p)) = isJumping p
   \<and> isJumping (player_laneEffect s p) = isJumping p
   \<and> (isJumping p \<longrightarrow> isJumping (snd (handleKeyDown s k p)))
   \<and> (reachable p \<and> \<not> isJumping p \<longrightarrow> velocityY p = 0)"
proof -
  have step: "isJumping p \<longrightarrow>
      (if posY p + velocityY p * delta \<le> 0
       then posY (player_physics b delta p) = 0
            \<and> velocityY (player_physics b delta p) = 0
            \<and> jumpsPerformed (player_physics b delta p) = 0
            \<and> \<not> isJumping (player_physics b delta p)
       else posY (player_physics b delta p) = posY p + velocityY p * delta
            \<and> velocityY (player_physics b delta p) = velocityY p - GRAVITY * delta
            \<and> jumpsPerformed (player_physics b delta p) = jumpsPerformed p
            \<and> isJumping (player_physics b delta p))"
    by (simp add: player_physics_def Let_def)
  have rest: "\<not> isJumping p \<longrightarrow> player_physics b delta p = p"
    by (simp add: player_physics_def)
  have phys_indep:
    "posY (player_physics b delta (q\<lparr>targetX := t, posX := x\<rparr>))
       = posY (player_physics b delta q)
     \<and> velocityY (player_physics b delta (q\<lparr>targetX := t, posX := x\<rparr>))
       = velocityY (player_physics b delta q)
     \<and> jumpsPerformed (player_physics b delta (q\<lparr>targetX := t, posX := x\<rparr>))
       = jumpsPerformed (player_physics b delta q)
     \<and> isJumping (player_physics b delta (q\<lparr>targetX := t, posX := x\<rparr>))
       = isJumping (player_physics b delta q)"
    for q t x
    by (simp add: player_physics_def Let_def)
  have frame: "g \<and> (status s = PLAYING \<or> status s = SHOP) \<longrightarrow>
        posY (player_useFrame cfg s g b now delta p) = posY (player_physics b delta p)
        \<and> velocityY (player_useFrame cfg s g b now delta p)
            = velocityY (player_physics b delta p)
        \<and> jumpsPerformed (player_useFrame cfg s g b now delta p)
            = jumpsPerformed (player_physics b delta p)
        \<and> isJumping (player_useFrame cfg s g b now delta p)
            = isJumping (player_physics b delta p)"
    using phys_indep by (auto simp: player_useFrame_def Let_def)
  have jump: "isJumping (snd (triggerJump s p))"
    by (simp add: triggerJump_def Let_def)
  have hit: "isJumping (snd (checkHit s now p)) = isJumping p"
    by (simp add: checkHit_def)
  have lane: "isJumping (player_laneEffect s p) = isJumping p"
    by (simp add: player_laneEffect_def Let_def)
  have inv: "reachable p \<and> \<not> isJumping p \<longrightarrow> velocityY p = 0"
    using reachable_jumpInv [of p] by (auto simp: jumpInv_def)
  have kd: "isJumping p \<longrightarrow> isJumping (snd (handleKeyDown s k p))"
    using jump by (simp add: handleKeyDown_def Let_def)
  have idle: "\<not> (g \<and> (status s = PLAYING \<or> status s = SHOP)) \<longrightarrow>
        player_useFrame cfg s g b now delta p = p"
    by (auto simp: player_useFrame_def)
  have reset: "status s = PLAYING \<longrightarrow>
        \<not> isJumping (player_statusEffect g s p)
        \<and> jumpsPerformed (player_statusEffect g s p) = 0
        \<and> velocityY (player_statusEffect g s p) = 0
        \<and> posY (player_statusEffect g s p) = (if g then 0 else posY p)"
    by (simp add: player_statusEffect_def Let_def)
  have noreset: "status s \<noteq> PLAYING \<longrightarrow> player_statusEffect g s p = p"
    by (simp add: player_statusEffect_def)
  from step rest frame idle reset noreset jump hit lane kd inv show ?thesis by blast
qed

theorem player_physics_step_witness:
  "isJumping jumpedPlayer
   \<and> posY (player_physics True (1 / 10) jumpedPlayer) = 16 / 10
   \<and> velocityY (player_physics True (1 / 10) jumpedPlayer) = 11
   \<and> status demoStore = PLAYING
   \<and> posY (player_useFrame demoConfig demoStore True True 0 (1 / 10) jumpedPlayer) = 16 / 10
   \<and> \<not> isJumping (player_statusEffect True demoStore jumpedPlayer)
   \<and> posY (player_statusEffect True demoStore jumpedPlayer) = 0
   \<and> isJumping (snd (handleKeyDown demoStore ''ArrowLeft'' jumpedPlayer))
   \<and> reachable initialPlayer \<and> \<not> isJumping initialPlayer
   \<and> player_physics True (1 / 10) initialPlayer = initialPlayer
   \<and> velocityY initialPlayer = 0
   \<and> status endedStore \<noteq> PLAYING \<and> status endedStore \<noteq> SHOP
   \<and> player_statusEffect True endedStore jumpedPlayer = jumpedPlayer
   \<and> player_useFrame demoConfig endedStore True True 0 (1 / 10) jumpedPlayer = jumpedPlayer"
  using player_physics_step [where p = jumpedPlayer and delta = "1 / 10" and b = True
      and g = True and s = demoStore and cfg = demoConfig and now = 0
      and k = "''ArrowLeft''"]
    player_physics_step [where p = initialPlayer and delta = "1 / 10" and b = True
      and g = True and s = demoStore and cfg = demoConfig and now = 0
      and k = "''ArrowLeft''"]
    player_physics_step [where p = jumpedPlayer and delta = "1 / 10" and b = True
      and g = True and s = endedStore and cfg = demoConfig and now = 0
      and k = "''ArrowLeft''"]
    reachable.r_init
  by (simp add: jumpedPlayer_simps GRAVITY_def)
     (simp add: initialPlayer_def demoStore_def endedStore_def)

text \<open>
  Claim C4 as it is written fails twice. The order of the claim (velocity first, then
  height with the new velocity) is not the order of the code: one tenth of a second
  after a jump from the ground the code has height 1.6 and velocity 11, the order of
  the claim gives height 1.1. And landing is not the only grounding transition: the
  effect on the status grounds that reachable airborne player at height 1.6, with no
  test of the height.
\<close>

theorem integration_and_grounding_counterexample:
  "(velocityY (player_physics True (1 / 10) jumpedPlayer),
    posY (player_physics True (1 / 10) jumpedPlayer))
   \<noteq> spec_integrate (1 / 10) (velocityY jumpedPlayer, posY jumpedPlayer)
   \<and> reachable airbornePlayer
   \<and> isJumping airbornePlayer
   \<and> posY airbornePlayer = 16 / 10
   \<and> \<not> isJumping (player_statusEffect True demoStore airbornePlayer)
   \<and> posY (player_statusEffect True demoStore airbornePlayer) = 0
   \<and> velocityY (player_statusEffect True demoStore airbornePlayer) = 0"
  using reachable_airbornePlayer
  by (simp add: player_physics_def spec_integrate_def Let_def jumpedPlayer_simps GRAVITY_def
      airbornePlayer_simps player_statusEffect_def demoStore_def)

text \<open>
  Claim C9 at a frame of one second. The frame callback of the level manager clamps
  the elapsed time to 0.05; the frame callback of the player integrates the jump with
  the elapsed time as it comes: one second after a jump from the ground the height is
  16 and the velocity -34, where a step of 0.1 gives the height 1.6.
\<close>

theorem player_frame_uses_raw_delta:
  "posY (player_useFrame demoConfig demoStore True True 0 1 jumpedPlayer) = 16
   \<and> velocityY (player_useFrame demoConfig demoStore True True 0 1 jumpedPlayer) = - 34
   \<and> posY (player_useFrame demoConfig demoStore True True 0 (1 / 10) jumpedPlayer) = 16 / 10
   \<and> safeDelta 1 = 1 / 20"
  by (simp add: player_useFrame_def player_physics_def Let_def jumpedPlayer_simps
      GRAVITY_def safeDelta_def demoStore_def)

section \<open>Properties of the level manager: one iteration of the entity loop\<close>

lemma collide_hit_iff:
  "active obj \<Longrightarrow> obj_type obj \<noteq> SHOP_PORTAL \<Longrightarrow>
   (\<not> active (fst (collide s playerPos now prevZ obj acc))) = spec_hit playerPos prevZ obj"
  by (cases "obj_type obj")
     (auto simp: collide_def Let_def spec_hit_def longitudinalStraddle_def lateralOverlap_def
        verticalOverlap_def bandsOverlap_def)

lemma collide_damage:
  "active obj \<Longrightarrow> isDamageSource obj \<Longrightarrow> spec_hit playerPos prevZ obj \<Longrightarrow>
   collide s playerPos now prevZ obj acc =
     (obj\<lparr> active := False \<rparr>, True,
      acc\<lparr> calls := calls acc @ fst (checkHit s now (plr acc))
                      @ [ParticleBurst (position obj) ''#deb887''],
           plr := snd (checkHit s now (plr acc)), hasChanges := True \<rparr>)"
  by (cases "obj_type obj")
     (auto simp: collide_def Let_def spec_hit_def longitudinalStraddle_def lateralOverlap_def
        verticalOverlap_def bandsOverlap_def isDamageSource_def)

lemma collide_inactive:
  "\<not> active obj \<Longrightarrow> collide s playerPos now prevZ obj acc = (obj, True, acc)"
  by (simp add: collide_def)

lemma collide_portal:
  "active obj \<Longrightarrow> obj_type obj = SHOP_PORTAL \<Longrightarrow>
   collide s playerPos now prevZ obj acc =
     (if \<bar>vz (position obj) - vz playerPos\<bar> < 2 then
        (obj\<lparr> active := False \<rparr>, False,
         acc\<lparr> calls := calls acc @ [OpenShop], hasChanges := True \<rparr>)
      else (obj, True, acc))"
  by (simp add: collide_def Let_def)

lemma collide_fst:
  "fst (collide s playerPos now prevZ obj acc) = obj
   \<or> fst (collide s playerPos now prevZ obj acc) = obj\<lparr> active := False \<rparr>"
  by (simp add: collide_def Let_def)

lemma collide_keeps:
  "keptObjects (snd (snd (collide s playerPos now prevZ obj acc))) = keptObjects acc"
  "visited (snd (snd (collide s playerPos now prevZ obj acc))) = visited acc"
  "newSpawns (snd (snd (collide s playerPos now prevZ obj acc))) = newSpawns acc"
  "uuids (snd (snd (collide s playerPos now prevZ obj acc))) = uuids acc"
  by (simp_all add: collide_def Let_def)

lemma collide_openShop:
  "count_list (calls (snd (snd (collide s playerPos now prevZ obj acc)))) OpenShop
   = count_list (calls acc) OpenShop
     + (if active obj \<and> obj_type obj = SHOP_PORTAL
           \<and> \<bar>vz (position obj) - vz playerPos\<bar> < 2 then 1 else 0)"
  by (cases "obj_type obj")
    (auto simp: collide_def Let_def checkHit_def split: option.splits)

lemma scarecrow_fst:
  "obj_id (fst (scarecrowLogic obj acc)) = obj_id obj"
  "obj_type (fst (scarecrowLogic obj acc)) = obj_type obj"
  "position (fst (scarecrowLogic obj acc)) = position obj"
  "active (fst (scarecrowLogic obj acc)) = active obj"
  by (simp_all add: scarecrowLogic_def)

lemma scarecrow_snd:
  "keptObjects (snd (scarecrowLogic obj acc)) = keptObjects acc"
  "visited (snd (scarecrowLogic obj acc)) = visited acc"
  "calls (snd (scarecrowLogic obj acc)) = calls acc"
  "plr (snd (scarecrowLogic obj acc)) = plr acc"
  by (simp_all add: scarecrowLogic_def)

lemma advance_simps:
  "obj_id (advance fd sd obj) = obj_id obj"
  "obj_type (advance fd sd obj) = obj_type obj"
  "active (advance fd sd obj) = active obj"
  "vx (position (advance fd sd obj)) = vx (position obj)"
  "vy (position (advance fd sd obj)) = vy (position obj)"
  "vz (position (advance fd sd obj)) = vz (position obj) + moveAmount fd sd obj"
  by (simp_all add: advance_def)

text \<open>The entity that one iteration leaves behind.\<close>

lemma loopBody_visited:
  "visited (loopBody cfg s pp now sd fd obj acc)
   = visited acc @ [fst (collide s pp now (vz (position obj))
                           (fst (scarecrowLogic (advance fd sd obj) acc))
                           (snd (scarecrowLogic (advance fd sd obj) acc)))]"
  by (simp add: loopBody_def Let_def collide_keeps scarecrow_snd)

lemma loopBody_calls:
  "calls (loopBody cfg s pp now sd fd obj acc)
   = calls (snd (snd (collide s pp now (vz (position obj))
                           (fst (scarecrowLogic (advance fd sd obj) acc))
                           (snd (scarecrowLogic (advance fd sd obj) acc)))))"
  by (simp add: loopBody_def Let_def)

lemma loopBody_plr:
  "plr (loopBody cfg s pp now sd fd obj acc)
   = plr (snd (snd (collide s pp now (vz (position obj))
                           (fst (scarecrowLogic (advance fd sd obj) acc))
                           (snd (scarecrowLogic (advance fd sd obj) acc)))))"
  by (simp add: loopBody_def Let_def)

lemma loopBody_kept:
  "keptObjects (loopBody cfg s pp now sd fd obj acc)
   = (let c = collide s pp now (vz (position obj))
                           (fst (scarecrowLogic (advance fd sd obj) acc))
                           (snd (scarecrowLogic (advance fd sd obj) acc))
      in if fst (snd c) \<and> \<not> vz (position (fst c)) > REMOVE_DISTANCE cfg
         then keptObjects acc @ [fst c] else keptObjects acc)"
  by (simp add: loopBody_def Let_def collide_keeps scarecrow_snd)

lemma collide_key: "entityKey (fst (collide s pp now prevZ obj acc)) = entityKey obj"
  using collide_fst [of s pp now prevZ obj acc] by (auto simp: entityKey_def)

lemma loopBody_last_key:
  "\<exists>o3. visited (loopBody cfg s pp now sd fd obj acc) = visited acc @ [o3]
      \<and> entityKey o3 = entityKey (advance fd sd obj)
      \<and> set (keptObjects (loopBody cfg s pp now sd fd obj acc))
          \<subseteq> insert o3 (set (keptObjects acc))"
proof -
  let ?c = "collide s pp now (vz (position obj))
              (fst (scarecrowLogic (advance fd sd obj) acc))
              (snd (scarecrowLogic (advance fd sd obj) acc))"
  have k: "entityKey (fst ?c) = entityKey (advance fd sd obj)"
    by (simp add: collide_key) (simp add: entityKey_def scarecrow_fst)
  have v: "visited (loopBody cfg s pp now sd fd obj acc) = visited acc @ [fst ?c]"
    by (rule loopBody_visited)
  have s: "set (keptObjects (loopBody cfg s pp now sd fd obj acc))
          \<subseteq> insert (fst ?c) (set (keptObjects acc))"
    by (auto simp: loopBody_kept Let_def)
  from k v s show ?thesis by blast
qed

lemma forLoop_visited:
  "\<exists>vs. visited (forLoop cfg s pp now sd fd objs acc) = visited acc @ vs
      \<and> map entityKey vs = map (\<lambda>obj. entityKey (advance fd sd obj)) objs
      \<and> set (keptObjects (forLoop cfg s pp now sd fd objs acc))
          \<subseteq> set (keptObjects acc) \<union> set vs"
proof (induction objs arbitrary: acc)
  case Nil
  show ?case by simp
next
  case (Cons obj rest)
  obtain o3 where o3: "visited (loopBody cfg s pp now sd fd obj acc) = visited acc @ [o3]"
      "entityKey o3 = entityKey (advance fd sd obj)"
      "set (keptObjects (loopBody cfg s pp now sd fd obj acc))
          \<subseteq> insert o3 (set (keptObjects acc))"
    using loopBody_last_key by blast
  obtain vs where vs:
      "visited (forLoop cfg s pp now sd fd rest (loopBody cfg s pp now sd fd obj acc))
         = visited (loopBody cfg s pp now sd fd obj acc) @ vs"
      "map entityKey vs = map (\<lambda>obj. entityKey (advance fd sd obj)) rest"
      "set (keptObjects (forLoop cfg s pp now sd fd rest (loopBody cfg s pp now sd fd obj acc)))
          \<subseteq> set (keptObjects (loopBody cfg s pp now sd fd obj acc)) \<union> set vs"
    using Cons.IH by blast
  have "visited (forLoop cfg s pp now sd fd (obj # rest) acc) = visited acc @ (o3 # vs)"
    using o3(1) vs(1) by simp
  moreover have "map entityKey (o3 # vs)
      = map (\<lambda>obj. entityKey (advance fd sd obj)) (obj # rest)"
    using o3(2) vs(2) by simp
  moreover have "set (keptObjects (forLoop cfg s pp now sd fd (obj # rest) acc))
          \<subseteq> set (keptObjects acc) \<union> set (o3 # vs)"
    using o3(3) vs(3) by auto
  ultimately show ?case by blast
qed

lemma loopBody_openShop:
  "count_list (calls (loopBody cfg s pp now sd fd obj acc)) OpenShop
   = count_list (calls acc) OpenShop + (if portalInReach fd pp obj then 1 else 0)"
proof -
  have m: "obj_type obj = SHOP_PORTAL \<Longrightarrow> moveAmount fd sd obj = fd"
    by (simp add: moveAmount_def)
  show ?thesis
    using m by (auto simp: loopBody_calls collide_openShop scarecrow_fst scarecrow_snd
        advance_simps portalInReach_def)
qed

lemma forLoop_openShop:
  "count_list (calls (forLoop cfg s pp now sd fd objs acc)) OpenShop
   = count_list (calls acc) OpenShop + length (filter (portalInReach fd pp) objs)"
  by (induction objs arbitrary: acc) (simp_all add: loopBody_openShop)

lemma spec_hit_cong:
  "obj_type a = obj_type b \<Longrightarrow> position a = position b \<Longrightarrow>
   spec_hit pp z a = spec_hit pp z b"
  by (cases "obj_type b")
     (simp_all add: spec_hit_def longitudinalStraddle_def lateralOverlap_def verticalOverlap_def)

lemma loopBody_last:
  "last (visited (loopBody cfg s pp now sd fd obj acc))
   = fst (collide s pp now (vz (position obj))
                           (fst (scarecrowLogic (advance fd sd obj) acc))
                           (snd (scarecrowLogic (advance fd sd obj) acc)))"
  by (simp add: loopBody_visited)

text \<open>
  Claim C5. For an active entity that is not the portal, one iteration of the entity
  loop registers a hit (it deactivates the entity) exactly when the interval from the
  forward distance before the move to the one after it straddles the player's forward
  position within the tolerance 2, the lateral offsets differ by less than 0.9, and
  the vertical bands overlap: the band [0, 1.4] for an obstacle, [0.5, 1.5] for a
  projectile, half a unit around the nominal height for an enemy, and a distance below
  2.5 from the nominal height for a collectible or a letter.
\<close>

theorem hit_registered_iff:
  "active obj \<and> obj_type obj \<noteq> SHOP_PORTAL \<longrightarrow>
     (\<not> active (last (visited (loopBody cfg s pp now sd fd obj acc))))
       = spec_hit pp (vz (position obj)) (advance fd sd obj)"
proof
  assume a: "active obj \<and> obj_type obj \<noteq> SHOP_PORTAL"
  let ?o = "fst (scarecrowLogic (advance fd sd obj) acc)"
  have "active ?o" "obj_type ?o \<noteq> SHOP_PORTAL"
    using a by (simp_all add: scarecrow_fst advance_simps)
  then have "(\<not> active (fst (collide s pp now (vz (position obj)) ?o
                  (snd (scarecrowLogic (advance fd sd obj) acc)))))
             = spec_hit pp (vz (position obj)) ?o"
    by (rule collide_hit_iff)
  moreover have "spec_hit pp (vz (position obj)) ?o
                 = spec_hit pp (vz (position obj)) (advance fd sd obj)"
    by (rule spec_hit_cong) (simp_all add: scarecrow_fst)
  ultimately show "(\<not> active (last (visited (loopBody cfg s pp now sd fd obj acc))))
       = spec_hit pp (vz (position obj)) (advance fd sd obj)"
    by (simp add: loopBody_last)
qed

lemma loopBody_damage_hit:
  "active obj \<and> isDamageSource obj \<and> spec_hit pp (vz (position obj)) (advance fd sd obj)
   \<longrightarrow>
     \<not> active (last (visited (loopBody cfg s pp now sd fd obj acc)))
     \<and> (if isInvincible (plr acc) \<or> isImmortalityActive s
        then calls (loopBody cfg s pp now sd fd obj acc)
               = calls acc @ [ParticleBurst (position (advance fd sd obj)) ''#deb887'']
             \<and> plr (loopBody cfg s pp now sd fd obj acc) = plr acc
        else calls (loopBody cfg s pp now sd fd obj acc)
               = calls acc @ [PlayDamage, TakeDamage,
                              ParticleBurst (position (advance fd sd obj)) ''#deb887'']
             \<and> plr (loopBody cfg s pp now sd fd obj acc)
               = (plr acc)\<lparr> isInvincible := True, lastDamageTime := now \<rparr>)"
proof
  assume a: "active obj \<and> isDamageSource obj
             \<and> spec_hit pp (vz (position obj)) (advance fd sd obj)"
  let ?f = "scarecrowLogic (advance fd sd obj) acc"
  have act: "active (fst ?f)"
    using a by (simp add: scarecrow_fst advance_simps)
  have dmg: "isDamageSource (fst ?f)"
    using a by (simp add: isDamageSource_def scarecrow_fst advance_simps)
  have "spec_hit pp (vz (position obj)) (fst ?f)
        = spec_hit pp (vz (position obj)) (advance fd sd obj)"
    by (rule spec_hit_cong) (simp_all add: scarecrow_fst)
  then have hit: "spec_hit pp (vz (position obj)) (fst ?f)"
    using a by simp
  note c = collide_damage [OF act dmg hit, of s now "snd ?f"]
  have 1: "\<not> active (last (visited (loopBody cfg s pp now sd fd obj acc)))"
    by (simp add: loopBody_last c)
  have 2: "calls (loopBody cfg s pp now sd fd obj acc)
           = calls acc @ fst (checkHit s now (plr acc))
               @ [ParticleBurst (position (advance fd sd obj)) ''#deb887'']"
    by (simp add: loopBody_calls c scarecrow_snd scarecrow_fst)
  have 3: "plr (loopBody cfg s pp now sd fd obj acc) = snd (checkHit s now (plr acc))"
    by (simp add: loopBody_plr c scarecrow_snd)
  show "\<not> active (last (visited (loopBody cfg s pp now sd fd obj acc)))
     \<and> (if isInvincible (plr acc) \<or> isImmortalityActive s
        then calls (loopBody cfg s pp now sd fd obj acc)
               = calls acc @ [ParticleBurst (position (advance fd sd obj)) ''#deb887'']
             \<and> plr (loopBody cfg s pp now sd fd obj acc) = plr acc
        else calls (loopBody cfg s pp now sd fd obj acc)
               = calls acc @ [PlayDamage, TakeDamage,
                              ParticleBurst (position (advance fd sd obj)) ''#deb887'']
             \<and> plr (loopBody cfg s pp now sd fd obj acc)
               = (plr acc)\<lparr> isInvincible := True, lastDamageTime := now \<rparr>)"
    using 1 2 3 by (simp add: checkHit_def)
qed

lemma useFrame_window:
  "g \<and> (status s = PLAYING \<or> status s = SHOP) \<longrightarrow>
     isInvincible (player_useFrame cfg s g b now delta q)
       = (isInvincible q \<and> \<not> now - lastDamageTime q > 1500)"
proof -
  have "isInvincible (player_physics b delta r) = isInvincible r
        \<and> lastDamageTime (player_physics b delta r) = lastDamageTime r" for r
    by (simp add: player_physics_def Let_def)
  then show ?thesis
    by (auto simp: player_useFrame_def Let_def)
qed

text \<open>
  Claim C1. When the player collides with a damage source (obstacle, enemy,
  projectile), the entity is deactivated in every case. While the invulnerability flag
  set by the last damage or the immortality skill is active, the hit listener returns
  at once: no damage call is made (the only call of the iteration is the particle
  burst) and the player refs are unchanged. When neither is active, the iteration
  makes exactly one \<open>takeDamage\<close> call (after the damage sound, before the particle
  burst) and opens the invulnerability window, recording the time. The player's frame
  callback keeps the flag until a frame that comes more than 1500 ms after that time.
\<close>

theorem damage_collision_split:
  "(active obj \<and> isDamageSource obj \<and> spec_hit pp (vz (position obj)) (advance fd sd obj)
    \<longrightarrow>
     \<not> active (last (visited (loopBody cfg s pp now sd fd obj acc)))
     \<and> (if isInvincible (plr acc) \<or> isImmortalityActive s
        then calls (loopBody cfg s pp now sd fd obj acc)
               = calls acc @ [ParticleBurst (position (advance fd sd obj)) ''#deb887'']
             \<and> plr (loopBody cfg s pp now sd fd obj acc) = plr acc
        else calls (loopBody cfg s pp now sd fd obj acc)
               = calls acc @ [PlayDamage, TakeDamage,
                              ParticleBurst (position (advance fd sd obj)) ''#deb887'']
             \<and> plr (loopBody cfg s pp now sd fd obj acc)
               = (plr acc)\<lparr> isInvincible := True, lastDamageTime := now \<rparr>))
   \<and> (g \<and> (status s = PLAYING \<or> status s = SHOP) \<longrightarrow>
        isInvincible (player_useFrame cfg s g b later delta q)
          = (isInvincible q \<and> \<not> later - lastDamageTime q > 1500))"
  using loopBody_damage_hit [of obj pp fd sd cfg s now acc]
    useFrame_window [of g s cfg b later delta q]
  by blast

lemma demoObstacle_simps:
  "active demoObstacle" "obj_type demoObstacle = OBSTACLE"
  "position demoObstacle = (0, 7 / 10, - 1)"
  "position (advance 1 (1 / 20) demoObstacle) = (0, 7 / 10, 0)"
  "isDamageSource demoObstacle"
  "spec_hit (0, 0, 0) (- 1) (advance 1 (1 / 20) demoObstacle)"
  "\<not> spec_hit (3, 0, 0) (- 1) (advance 1 (1 / 20) demoObstacle)"
  by (simp_all add: demoObstacle_def obstacleObject_def advance_def moveAmount_def
      isDamageSource_def spec_hit_def longitudinalStraddle_def lateralOverlap_def
      verticalOverlap_def bandsOverlap_def)

theorem damage_collision_split_witness:
  "active demoObstacle \<and> isDamageSource demoObstacle
   \<and> spec_hit (0, 0, 0) (vz (position demoObstacle)) (advance 1 (1 / 20) demoObstacle)
   \<and> calls (loopBody demoConfig demoStore (0, 0, 0) 7 (1 / 20) 1 demoObstacle demoLoop)
       = [PlayDamage, TakeDamage, ParticleBurst (0, 7 / 10, 0) ''#deb887'']
   \<and> calls (loopBody demoConfig demoStore (0, 0, 0) 7 (1 / 20) 1 demoObstacle
              (demoLoop\<lparr> plr := initialPlayer\<lparr> isInvincible := True \<rparr> \<rparr>))
       = [ParticleBurst (0, 7 / 10, 0) ''#deb887'']
   \<and> \<not> active (last (visited (loopBody demoConfig demoStore (0, 0, 0) 7 (1 / 20) 1
                                 demoObstacle
                                 (demoLoop\<lparr> plr := initialPlayer\<lparr> isInvincible := True \<rparr> \<rparr>))))
   \<and> \<not> isInvincible (player_useFrame demoConfig demoStore True True 1600 (1 / 60)
                          (initialPlayer\<lparr> isInvincible := True, lastDamageTime := 7 \<rparr>))
   \<and> isInvincible (player_useFrame demoConfig demoStore True True 1500 (1 / 60)
                        (initialPlayer\<lparr> isInvincible := True, lastDamageTime := 7 \<rparr>))"
  using damage_collision_split [where obj = demoObstacle and pp = "(0, 0, 0)" and fd = 1
      and sd = "1 / 20" and cfg = demoConfig and s = demoStore and now = 7
      and acc = demoLoop and g = True and b = True and later = 1600 and delta = "1 / 60"
      and q = "initialPlayer\<lparr> isInvincible := True, lastDamageTime := 7 \<rparr>"]
    damage_collision_split [where obj = demoObstacle and pp = "(0, 0, 0)" and fd = 1
      and sd = "1 / 20" and cfg = demoConfig and s = demoStore and now = 7
      and acc = "demoLoop\<lparr> plr := initialPlayer\<lparr> isInvincible := True \<rparr> \<rparr>"
      and g = True and b = True and later = 1500 and delta = "1 / 60"
      and q = "initialPlayer\<lparr> isInvincible := True, lastDamageTime := 7 \<rparr>"]
  by (simp add: demoObstacle_simps demoLoop_def initialPlayer_def demoStore_def)

theorem hit_registered_iff_witness:
  "active demoObstacle \<and> obj_type demoObstacle \<noteq> SHOP_PORTAL
   \<and> \<not> active (last (visited (loopBody demoConfig demoStore (0, 0, 0) 7 (1 / 20) 1
                                 demoObstacle demoLoop)))
   \<and> active (last (visited (loopBody demoConfig demoStore (3, 0, 0) 7 (1 / 20) 1
                                 demoObstacle demoLoop)))"
  using hit_registered_iff [of demoObstacle demoConfig demoStore "(0, 0, 0)" 7 "1 / 20" 1
      demoLoop]
    hit_registered_iff [of demoObstacle demoConfig demoStore "(3, 0, 0)" 7 "1 / 20" 1
      demoLoop]
  by (simp add: demoObstacle_simps)

section \<open>Properties of the level manager: the portal\<close>

lemma demoStore_simps:
  "status demoStore = PLAYING" "speed demoStore = 20" "level demoStore = 1"
  by (simp_all add: demoStore_def)

lemma demoManager_simps:
  "objects demoManager = [demoObstacle]"
  by (simp add: demoManager_def)

lemma demoPortal_simps:
  "active demoPortal" "obj_type demoPortal = SHOP_PORTAL"
  "position demoPortal = (5, 3, - 1)"
  "portalInReach 1 (0, 0, 0) demoPortal"
  by (simp_all add: demoPortal_def shopPortal_def portalInReach_def)

lemma frameAfterLoop_openShop:
  "count_list (calls (frameAfterLoop cfg s pp now delta lm p)) OpenShop
   = length (filter (portalInReach (speed s * safeDelta delta) pp) (objects lm))"
  by (simp add: frameAfterLoop_def forLoop_openShop)

lemma loopBody_portal:
  assumes "portalInReach fd pp obj"
  shows "calls (loopBody cfg s pp now sd fd obj acc) = calls acc @ [OpenShop]"
    and "\<not> active (last (visited (loopBody cfg s pp now sd fd obj acc)))"
    and "keptObjects (loopBody cfg s pp now sd fd obj acc) = keptObjects acc"
    and "hasChanges (loopBody cfg s pp now sd fd obj acc)"
proof -
  let ?f = "scarecrowLogic (advance fd sd obj) acc"
  have t: "obj_type obj = SHOP_PORTAL" and a: "active obj"
    and z: "\<bar>vz (position obj) + fd - vz pp\<bar> < 2"
    using assms by (simp_all add: portalInReach_def)
  have f: "?f = (advance fd sd obj, acc)"
    using t by (simp add: scarecrowLogic_def advance_simps)
  have m: "vz (position (advance fd sd obj)) = vz (position obj) + fd"
    using t by (simp add: advance_simps moveAmount_def)
  have c: "collide s pp now (vz (position obj)) (advance fd sd obj) acc
           = ((advance fd sd obj)\<lparr> active := False \<rparr>, False,
              acc\<lparr> calls := calls acc @ [OpenShop], hasChanges := True \<rparr>)"
    using collide_portal [of "advance fd sd obj" s pp now "vz (position obj)" acc] a t z m
    by (simp add: advance_simps)
  show "calls (loopBody cfg s pp now sd fd obj acc) = calls acc @ [OpenShop]"
    by (simp add: loopBody_calls f c)
  show "\<not> active (last (visited (loopBody cfg s pp now sd fd obj acc)))"
    by (simp add: loopBody_last f c)
  show "keptObjects (loopBody cfg s pp now sd fd obj acc) = keptObjects acc"
    by (simp add: loopBody_kept f c)
  show "hasChanges (loopBody cfg s pp now sd fd obj acc)"
    by (simp add: loopBody_def Let_def f c)
qed

lemma loopBody_inactive:
  assumes "\<not> active obj"
  shows "calls (loopBody cfg s pp now sd fd obj acc) = calls acc"
    and "\<not> active (last (visited (loopBody cfg s pp now sd fd obj acc)))"
proof -
  have f: "scarecrowLogic (advance fd sd obj) acc = (advance fd sd obj, acc)"
    using assms by (simp add: scarecrowLogic_def advance_simps)
  have c: "collide s pp now (vz (position obj)) (advance fd sd obj) acc
           = (advance fd sd obj, True, acc)"
    using assms by (simp add: collide_inactive advance_simps)
  show "calls (loopBody cfg s pp now sd fd obj acc) = calls acc"
    by (simp add: loopBody_calls f c)
  show "\<not> active (last (visited (loopBody cfg s pp now sd fd obj acc)))"
    using assms by (simp add: loopBody_last f c advance_simps)
qed

lemma loopBody_portal_balance:
  "count_list (calls (loopBody cfg s pp now sd fd obj acc)) OpenShop
     + length (filter isActivePortal [last (visited (loopBody cfg s pp now sd fd obj acc))])
   = count_list (calls acc) OpenShop + length (filter isActivePortal [obj])"
proof (cases "portalInReach fd pp obj")
  case True
  then show ?thesis
    using loopBody_portal [of fd pp obj cfg s now sd acc]
    by (simp add: isActivePortal_def portalInReach_def)
next
  case False
  let ?f = "scarecrowLogic (advance fd sd obj) acc"
  have cnt: "count_list (calls (loopBody cfg s pp now sd fd obj acc)) OpenShop
             = count_list (calls acc) OpenShop"
    using False by (simp add: loopBody_openShop)
  have same: "isActivePortal (last (visited (loopBody cfg s pp now sd fd obj acc)))
              = isActivePortal obj"
  proof (cases "isActivePortal obj")
    case True
    then have a: "active (fst ?f)" and t: "obj_type (fst ?f) = SHOP_PORTAL"
      by (simp_all add: isActivePortal_def scarecrow_fst advance_simps)
    have "\<not> \<bar>vz (position (fst ?f)) - vz pp\<bar> < 2"
      using False True
      by (simp add: portalInReach_def isActivePortal_def scarecrow_fst advance_simps
          moveAmount_def)
    then have "fst (collide s pp now (vz (position obj)) (fst ?f) (snd ?f)) = fst ?f"
      using collide_portal [OF a t, of s pp now "vz (position obj)" "snd ?f"] by simp
    then show ?thesis
      using True by (simp add: loopBody_last isActivePortal_def scarecrow_fst advance_simps)
  next
    case False
    then have "\<not> isActivePortal (fst ?f)"
      by (simp add: isActivePortal_def scarecrow_fst advance_simps)
    then have "\<not> isActivePortal (fst (collide s pp now (vz (position obj)) (fst ?f) (snd ?f)))"
      using collide_fst [of s pp now "vz (position obj)" "fst ?f" "snd ?f"]
      by (auto simp: isActivePortal_def)
    then show ?thesis
      using False by (simp add: loopBody_last)
  qed
  show ?thesis using cnt same by simp
qed

lemma loopBody_visited_last:
  "visited (loopBody cfg s pp now sd fd obj acc)
   = visited acc @ [last (visited (loopBody cfg s pp now sd fd obj acc))]"
  by (simp add: loopBody_visited)

lemma loopBody_kept_cases:
  "keptObjects (loopBody cfg s pp now sd fd obj acc) = keptObjects acc
   \<or> keptObjects (loopBody cfg s pp now sd fd obj acc)
       = keptObjects acc @ [last (visited (loopBody cfg s pp now sd fd obj acc))]"
  by (simp add: loopBody_kept loopBody_last Let_def)

lemma forLoop_portal_balance:
  "count_list (calls (forLoop cfg s pp now sd fd objs acc)) OpenShop
     + length (filter isActivePortal (visited (forLoop cfg s pp now sd fd objs acc)))
   = count_list (calls acc) OpenShop + length (filter isActivePortal (visited acc))
     + length (filter isActivePortal objs)"
proof (induction objs arbitrary: acc)
  case Nil
  show ?case by simp
next
  case (Cons obj rest)
  let ?b = "loopBody cfg s pp now sd fd obj acc"
  have v: "length (filter isActivePortal (visited ?b))
           = length (filter isActivePortal (visited acc))
             + length (filter isActivePortal [last (visited ?b)])"
    by (subst loopBody_visited_last) simp
  show ?case
    using Cons.IH [of ?b] v loopBody_portal_balance [of cfg s pp now sd fd obj acc]
    by simp
qed

lemma forLoop_kept_portals:
  "length (filter isActivePortal (keptObjects (forLoop cfg s pp now sd fd objs acc)))
     + length (filter isActivePortal (visited acc))
   \<le> length (filter isActivePortal (keptObjects acc))
     + length (filter isActivePortal (visited (forLoop cfg s pp now sd fd objs acc)))"
proof (induction objs arbitrary: acc)
  case Nil
  show ?case by simp
next
  case (Cons obj rest)
  let ?b = "loopBody cfg s pp now sd fd obj acc"
  have v: "length (filter isActivePortal (visited ?b))
           = length (filter isActivePortal (visited acc))
             + length (filter isActivePortal [last (visited ?b)])"
    by (subst loopBody_visited_last) simp
  have k: "length (filter isActivePortal (keptObjects ?b))
           \<le> length (filter isActivePortal (keptObjects acc))
             + length (filter isActivePortal [last (visited ?b)])"
    using loopBody_kept_cases [of cfg s pp now sd fd obj acc] by auto
  show ?case
    using Cons.IH [of ?b] v k by simp
qed

lemma scarecrow_newSpawns:
  "filter isActivePortal (newSpawns (snd (scarecrowLogic obj acc)))
   = filter isActivePortal (newSpawns acc)"
  by (simp add: scarecrowLogic_def isActivePortal_def firedMissile_def)

lemma loopBody_newSpawns:
  "filter isActivePortal (newSpawns (loopBody cfg s pp now sd fd obj acc))
   = filter isActivePortal (newSpawns acc)"
  by (simp add: loopBody_def Let_def collide_keeps scarecrow_newSpawns)

lemma forLoop_newSpawns:
  "filter isActivePortal (newSpawns (forLoop cfg s pp now sd fd objs acc))
   = filter isActivePortal (newSpawns acc)"
  by (induction objs arbitrary: acc) (simp_all add: loopBody_newSpawns)

lemma spawnStep_no_portal:
  "filter isActivePortal (spawned (spawnStep cfg s rnd d t u k objs)) = []"
  by (simp add: spawnStep_def Let_def isActivePortal_def letterObject_def gemObject_def
      alienObject_def obstacleObject_def)

lemma frame_portal_budget:
  assumes "status s = PLAYING"
  shows "count_list (fst (levelManager_useFrame cfg s rnd pp now delta lm p)) OpenShop
         + length (filter isActivePortal
             (objects (fst (snd (levelManager_useFrame cfg s rnd pp now delta lm p)))))
         \<le> length (filter isActivePortal (objects lm))"
proof -
  let ?acc = "frameAfterLoop cfg s pp now delta lm p"
  let ?sp = "frameSpawn cfg s rnd pp now delta lm p"
  let ?a0 = "\<lparr> keptObjects = [], newSpawns = [], hasChanges = False, visited = [],
               calls = [], plr = p, uuids = uuidCount lm \<rparr>"
  have bal: "count_list (calls ?acc) OpenShop + length (filter isActivePortal (visited ?acc))
             = length (filter isActivePortal (objects lm))"
    using forLoop_portal_balance [of cfg s pp now "safeDelta delta" "speed s * safeDelta delta"
        "objects lm" ?a0]
    by (simp add: frameAfterLoop_def)
  have kept: "length (filter isActivePortal (keptObjects ?acc))
              \<le> length (filter isActivePortal (visited ?acc))"
    using forLoop_kept_portals [of cfg s pp now "safeDelta delta" "speed s * safeDelta delta"
        "objects lm" ?a0]
    by (simp add: frameAfterLoop_def)
  have new: "filter isActivePortal (newSpawns ?acc) = []"
    by (simp add: frameAfterLoop_def forLoop_newSpawns)
  have sp: "filter isActivePortal (spawned ?sp) = []"
    by (simp add: frameSpawn_def Let_def spawnStep_no_portal)
  show ?thesis
    using assms bal kept new sp
    by (simp add: levelManager_useFrame_def Let_def)
qed

lemma portal_not_skipped:
  "active obj \<and> obj_type obj = SHOP_PORTAL \<and> fd < 4
   \<and> vz (position obj) \<le> vz pp - 2 \<and> vz pp - 2 < vz (position obj) + fd
   \<longrightarrow> portalInReach fd pp obj"
  by (auto simp: portalInReach_def)

text \<open>
  Claim C6. An active portal that a frame brings within the proximity 2 of the player's
  forward position, wherever it is laterally and vertically, makes the iteration call
  \<open>openShop\<close> exactly once, deactivates the portal and drops it from the kept
  entities. An inactive entity makes no call at all. Over a whole frame the number of
  \<open>openShop\<close> calls is the number of active portals in reach, and while Playing
  these calls and the active portals left in the store together are at most the active
  portals of before: a portal that has opened the shop is gone and cannot open it
  again. A portal that a frame moves by less than 4 from before the proximity into or
  past its near edge is in reach at that frame.
\<close>

theorem portal_opens_shop_once:
  "(portalInReach fd pp obj \<longrightarrow>
      calls (loopBody cfg s pp now sd fd obj acc) = calls acc @ [OpenShop]
      \<and> \<not> active (last (visited (loopBody cfg s pp now sd fd obj acc)))
      \<and> keptObjects (loopBody cfg s pp now sd fd obj acc) = keptObjects acc
      \<and> hasChanges (loopBody cfg s pp now sd fd obj acc))
   \<and> (\<not> active obj \<longrightarrow>
      calls (loopBody cfg s pp now sd fd obj acc) = calls acc
      \<and> \<not> active (last (visited (loopBody cfg s pp now sd fd obj acc))))
   \<and> count_list (calls (frameAfterLoop cfg s pp now delta lm p)) OpenShop
     = length (filter (portalInReach (speed s * safeDelta delta) pp) (objects lm))
   \<and> (status s = PLAYING \<longrightarrow>
        count_list (fst (levelManager_useFrame cfg s rnd pp now delta lm p)) OpenShop
          + length (filter isActivePortal
              (objects (fst (snd (levelManager_useFrame cfg s rnd pp now delta lm p)))))
        \<le> length (filter isActivePortal (objects lm)))
   \<and> (active obj \<and> obj_type obj = SHOP_PORTAL \<and> fd < 4
        \<and> vz (position obj) \<le> vz pp - 2 \<and> vz pp - 2 < vz (position obj) + fd
        \<longrightarrow> portalInReach fd pp obj)"
  using loopBody_portal [of fd pp obj cfg s now sd acc]
    portal_not_skipped [of obj fd pp]
    loopBody_inactive [of obj cfg s pp now sd fd acc]
    frameAfterLoop_openShop [of cfg s pp now delta lm p]
    frame_portal_budget [of s cfg rnd pp now delta lm p]
  by blast

lemma portalManager_simps:
  "objects portalManager = [demoObstacle, demoPortal]"
  "\<not> portalInReach fd pp demoObstacle"
  by (simp_all add: portalManager_def portalInReach_def demoObstacle_simps)

theorem portal_opens_shop_once_witness:
  "portalInReach 1 (0, 0, 0) demoPortal
   \<and> vx (position demoPortal) = 5 \<and> vy (position demoPortal) = 3
   \<and> calls (loopBody demoConfig demoStore (0, 0, 0) 7 (1 / 20) 1 demoPortal demoLoop)
       = [OpenShop]
   \<and> keptObjects (loopBody demoConfig demoStore (0, 0, 0) 7 (1 / 20) 1 demoPortal demoLoop)
       = []
   \<and> \<not> active (demoPortal\<lparr> active := False \<rparr>)
   \<and> calls (loopBody demoConfig demoStore (0, 0, 0) 7 (1 / 20) 1
              (demoPortal\<lparr> active := False \<rparr>) demoLoop) = []
   \<and> status demoStore = PLAYING
   \<and> count_list (calls (frameAfterLoop demoConfig demoStore (0, 0, 0) 7 (1 / 20)
                             portalManager initialPlayer)) OpenShop = 1
   \<and> vz (position (shopPortal 0)) \<le> vz (0, 0, - 97) - 2
   \<and> vz (0, 0, - 97) - 2 < vz (position (shopPortal 0)) + 2
   \<and> portalInReach 2 (0, 0, - 97) (shopPortal 0)"
  using portal_opens_shop_once [where fd = 1 and pp = "(0, 0, 0)" and obj = demoPortal
      and cfg = demoConfig and s = demoStore and now = 7 and sd = "1 / 20" and acc = demoLoop
      and delta = "1 / 20" and lm = portalManager and p = initialPlayer
      and rnd = "\<lambda>n. 1 / 2"]
    portal_opens_shop_once [where fd = 1 and pp = "(0, 0, 0)"
      and obj = "demoPortal\<lparr> active := False \<rparr>"
      and cfg = demoConfig and s = demoStore and now = 7 and sd = "1 / 20" and acc = demoLoop
      and delta = 0 and lm = demoManager and p = initialPlayer and rnd = "\<lambda>n. 1 / 2"]
    portal_opens_shop_once [where fd = 2 and pp = "(0, 0, - 97)" and obj = "shopPortal 0"
      and cfg = demoConfig and s = demoStore and now = 7 and sd = "1 / 20" and acc = demoLoop
      and delta = 0 and lm = demoManager and p = initialPlayer and rnd = "\<lambda>n. 1 / 2"]
  by (simp add: demoPortal_simps demoLoop_def demoStore_simps safeDelta_def
      portalManager_simps)
     (simp add: shopPortal_def)

section \<open>Properties of the level manager: movement\<close>

lemma frame_objects_subset:
  assumes "status s = PLAYING"
  shows "set (objects (fst (snd (levelManager_useFrame cfg s rnd pp now delta lm p))))
         \<subseteq> set (visited (frameAfterLoop cfg s pp now delta lm p))
           \<union> set (newSpawns (frameAfterLoop cfg s pp now delta lm p))
           \<union> set (spawned (frameSpawn cfg s rnd pp now delta lm p))"
proof -
  let ?a0 = "\<lparr> keptObjects = [], newSpawns = [], hasChanges = False, visited = [],
               calls = [], plr = p, uuids = uuidCount lm \<rparr>"
  obtain vs where vs:
    "visited (frameAfterLoop cfg s pp now delta lm p) = visited ?a0 @ vs"
    "set (keptObjects (frameAfterLoop cfg s pp now delta lm p))
       \<subseteq> set (keptObjects ?a0) \<union> set vs"
    using forLoop_visited [of cfg s pp now "safeDelta delta" "speed s * safeDelta delta"
        "objects lm" ?a0]
    unfolding frameAfterLoop_def by blast
  then have "set (keptObjects (frameAfterLoop cfg s pp now delta lm p))
             \<subseteq> set (visited (frameAfterLoop cfg s pp now delta lm p))"
    by simp
  then show ?thesis
    using assms by (auto simp: levelManager_useFrame_def Let_def)
qed

lemma frame_visited_keys:
  "map entityKey (visited (frameAfterLoop cfg s pp now delta lm p))
   = map (\<lambda>obj. entityKey (advance (speed s * safeDelta delta) (safeDelta delta) obj))
       (objects lm)"
proof -
  let ?a0 = "\<lparr> keptObjects = [], newSpawns = [], hasChanges = False, visited = [],
               calls = [], plr = p, uuids = uuidCount lm \<rparr>"
  obtain vs where vs:
    "visited (frameAfterLoop cfg s pp now delta lm p) = visited ?a0 @ vs"
    "map entityKey vs
       = map (\<lambda>obj. entityKey (advance (speed s * safeDelta delta) (safeDelta delta) obj))
           (objects lm)"
    using forLoop_visited [of cfg s pp now "safeDelta delta" "speed s * safeDelta delta"
        "objects lm" ?a0]
    unfolding frameAfterLoop_def by blast
  then show ?thesis by simp
qed

lemma advance_z:
  "vz (position (advance (v * sd) sd obj))
   = vz (position obj) + v * sd + (if obj_type obj = MISSILE then MISSILE_SPEED * sd else 0)"
  by (simp add: advance_simps moveAmount_def)

lemma safeDelta_nonneg: "0 \<le> delta \<Longrightarrow> 0 \<le> safeDelta delta"
  by (simp add: safeDelta_def)

lemma advance_mono:
  assumes "0 \<le> v" "0 \<le> sd"
  shows "vz (position obj) \<le> vz (position (advance (v * sd) sd obj))"
proof -
  have "0 \<le> v * sd" using assms by simp
  moreover have "0 \<le> MISSILE_SPEED * sd" using assms by (simp add: MISSILE_SPEED_def)
  ultimately show ?thesis by (simp add: advance_z)
qed

text \<open>
  Claim C7. While Playing, a frame leaves every entity of the store with the same
  identifier and kind and with its forward distance increased by exactly the frame's
  travel distance \<open>speed * safeDelta\<close>, plus \<open>MISSILE_SPEED * safeDelta\<close> for a
  projectile; the store of after the frame holds only such moved entities and entities
  created in this frame. With a speed and an elapsed time that are not negative the
  forward distance does not decrease. Outside Playing the frame changes nothing.
\<close>

theorem entities_advance:
  "(status s = PLAYING \<longrightarrow>
      map entityKey (visited (frameAfterLoop cfg s pp now delta lm p))
        = map (\<lambda>obj. entityKey (advance (speed s * safeDelta delta) (safeDelta delta) obj))
            (objects lm)
      \<and> set (objects (fst (snd (levelManager_useFrame cfg s rnd pp now delta lm p))))
          \<subseteq> set (visited (frameAfterLoop cfg s pp now delta lm p))
            \<union> set (newSpawns (frameAfterLoop cfg s pp now delta lm p))
            \<union> set (spawned (frameSpawn cfg s rnd pp now delta lm p)))
   \<and> vz (position (advance (speed s * safeDelta delta) (safeDelta delta) obj))
       = vz (position obj) + speed s * safeDelta delta
         + (if obj_type obj = MISSILE then MISSILE_SPEED * safeDelta delta else 0)
   \<and> (0 \<le> speed s \<and> 0 \<le> delta \<longrightarrow>
        vz (position obj)
          \<le> vz (position (advance (speed s * safeDelta delta) (safeDelta delta) obj)))
   \<and> (status s \<noteq> PLAYING \<longrightarrow>
        levelManager_useFrame cfg s rnd pp now delta lm p = ([], lm, p))"
  using frame_visited_keys [of cfg s pp now delta lm p]
    frame_objects_subset [of s cfg rnd pp now delta lm p]
    advance_z [of "speed s" "safeDelta delta" obj]
    advance_mono [of "speed s" "safeDelta delta" obj]
    safeDelta_nonneg [of delta]
  by (simp add: levelManager_useFrame_def)

theorem entities_advance_witness:
  "status demoStore = PLAYING \<and> 0 \<le> speed demoStore \<and> (0::real) \<le> 1 / 20
   \<and> vz (position demoObstacle) = - 1
   \<and> vz (position (advance (speed demoStore * safeDelta (1 / 20)) (safeDelta (1 / 20))
                     demoObstacle)) = 0
   \<and> map entityKey
        (visited (frameAfterLoop demoConfig demoStore (0, 0, 0) 7 (1 / 20) demoManager
                    initialPlayer))
      = [(0, OBSTACLE, (0, 7 / 10, 0))]
   \<and> status endedStore \<noteq> PLAYING
   \<and> levelManager_useFrame demoConfig endedStore (\<lambda>n. 1 / 2) (0, 0, 0) 7 (1 / 20)
         demoManager initialPlayer
       = ([], demoManager, initialPlayer)"
  using entities_advance [where s = demoStore and cfg = demoConfig and pp = "(0, 0, 0)"
      and now = 7 and delta = "1 / 20" and lm = demoManager and p = initialPlayer
      and rnd = "\<lambda>n. 1 / 2" and obj = demoObstacle]
    entities_advance [where s = endedStore and cfg = demoConfig and pp = "(0, 0, 0)"
      and now = 7 and delta = "1 / 20" and lm = demoManager and p = initialPlayer
      and rnd = "\<lambda>n. 1 / 2" and obj = demoObstacle]
  by (simp add: demoStore_simps demoManager_simps safeDelta_def demoObstacle_simps
      entityKey_def advance_simps endedStore_def)
     (simp add: demoObstacle_def obstacleObject_def)

section \<open>Properties of the level manager: spawning and reset\<close>

lemma lettersComplete_iff:
  "lettersComplete cfg s
   = (\<forall>i < length (TARGET_WORD cfg). i \<in> set (collectedLetters s))"
  by (auto simp: lettersComplete_def availableIndices_def filter_empty_conv)

lemma getLetterInterval_formula:
  "1 \<le> L \<Longrightarrow> getLetterInterval L = BASE_LETTER_INTERVAL * (3 / 2) ^ nat (L - 1)"
  by (simp add: getLetterInterval_def)

lemma spawnStep_threshold:
  "threshold (spawnStep cfg s rnd d t u k objs)
   = (if \<exists>obj \<in> set (spawned (spawnStep cfg s rnd d t u k objs)). obj_type obj = LETTER
      then t + getLetterInterval (level s) else t)"
  by (simp add: spawnStep_def Let_def letterObject_def gemObject_def alienObject_def
      obstacleObject_def)

lemma frame_threshold:
  "status s = PLAYING \<Longrightarrow>
   nextLetterDistance (fst (snd (levelManager_useFrame cfg s rnd pp now delta lm p)))
   = (if \<exists>obj \<in> set (spawned (frameSpawn cfg s rnd pp now delta lm p)). obj_type obj = LETTER
      then nextLetterDistance lm + getLetterInterval (level s) else nextLetterDistance lm)"
  using spawnStep_threshold
  by (simp add: levelManager_useFrame_def Let_def frameSpawn_def)

lemma spawnStep_fallback:
  assumes "furthestZ objs > - SPAWN_DISTANCE cfg" "t \<le> d" "lettersComplete cfg s"
  shows "spawnStep cfg s rnd d t u k objs
         = \<lparr> spawned = [plainGem cfg s (rnd k) u objs], threshold = t, spawnChanges = True,
             uuidsAfter = u + 1, randomsAfter = k + 1 \<rparr>"
  using assms by (simp add: spawnStep_def Let_def lettersComplete_def plainGem_def)

lemma spawnStep_lone:
  assumes "furthestZ objs > - SPAWN_DISTANCE cfg" "\<not> t \<le> d" "rnd k > 1 / 10"
    "\<not> rnd (k + 1) > 2 / 10"
  shows "spawnStep cfg s rnd d t u k objs
         = \<lparr> spawned = [plainGem cfg s (rnd (k + 2)) u objs], threshold = t,
             spawnChanges = True, uuidsAfter = u + 1, randomsAfter = k + 3 \<rparr>"
  using assms by (simp add: spawnStep_def Let_def plainGem_def)

lemma spawnStep_complete_threshold:
  "lettersComplete cfg s \<Longrightarrow> threshold (spawnStep cfg s rnd d t u k objs) = t"
  by (simp add: spawnStep_def Let_def lettersComplete_def)

lemma frame_complete:
  assumes "lettersComplete cfg s" "0 \<le> speed s" "0 \<le> delta"
  shows "nextLetterDistance (fst (snd (levelManager_useFrame cfg s rnd pp now delta lm p)))
         = nextLetterDistance lm"
    and "distanceTraveled lm
         \<le> distanceTraveled (fst (snd (levelManager_useFrame cfg s rnd pp now delta lm p)))"
proof -
  show "nextLetterDistance (fst (snd (levelManager_useFrame cfg s rnd pp now delta lm p)))
         = nextLetterDistance lm"
    using assms(1)
    by (simp add: levelManager_useFrame_def Let_def frameSpawn_def spawnStep_complete_threshold)
  have "0 \<le> speed s * safeDelta delta"
    using assms(2,3) by (simp add: safeDelta_def)
  then show "distanceTraveled lm
         \<le> distanceTraveled (fst (snd (levelManager_useFrame cfg s rnd pp now delta lm p)))"
    by (simp add: levelManager_useFrame_def Let_def)
qed

lemma runFrames_complete:
  "list_all (completeFrame cfg) fs \<Longrightarrow>
   nextLetterDistance (runFrames cfg fs lm) = nextLetterDistance lm
   \<and> distanceTraveled lm \<le> distanceTraveled (runFrames cfg fs lm)"
proof (induction fs arbitrary: lm)
  case Nil
  show ?case by simp
next
  case (Cons f fs)
  let ?lm1 = "fst (snd (levelManager_useFrame cfg (in_store f) (in_rnd f) (in_playerPos f)
                    (in_now f) (in_delta f) lm (in_player f)))"
  have f: "lettersComplete cfg (in_store f)" "0 \<le> speed (in_store f)" "0 \<le> in_delta f"
    using Cons.prems by (simp_all add: completeFrame_def)
  have rest: "list_all (completeFrame cfg) fs"
    using Cons.prems by simp
  have 1: "nextLetterDistance ?lm1 = nextLetterDistance lm"
    using f by (rule frame_complete(1))
  have 2: "distanceTraveled lm \<le> distanceTraveled ?lm1"
    using f by (rule frame_complete(2))
  show ?case
    using Cons.IH [OF rest, of ?lm1] 1 2 by simp
qed

lemma frameSpawn_fallback:
  assumes due: "nextLetterDistance lm \<le> distanceTraveled lm"
    and f: "completeFrame cfg f"
    and opp: "furthestZ (keptObjects (frameAfterLoop cfg (in_store f) (in_playerPos f)
                 (in_now f) (in_delta f) lm (in_player f))
               @ newSpawns (frameAfterLoop cfg (in_store f) (in_playerPos f)
                 (in_now f) (in_delta f) lm (in_player f)))
             > - SPAWN_DISTANCE cfg"
  shows "frameSpawn cfg (in_store f) (in_rnd f) (in_playerPos f) (in_now f) (in_delta f) lm
           (in_player f)
         = \<lparr> spawned = [plainGem cfg (in_store f) (in_rnd f (randomCount lm))
                          (uuids (frameAfterLoop cfg (in_store f) (in_playerPos f)
                             (in_now f) (in_delta f) lm (in_player f)))
                          (keptObjects (frameAfterLoop cfg (in_store f) (in_playerPos f)
                             (in_now f) (in_delta f) lm (in_player f))
                           @ newSpawns (frameAfterLoop cfg (in_store f) (in_playerPos f)
                             (in_now f) (in_delta f) lm (in_player f)))],
             threshold = nextLetterDistance lm, spawnChanges = True,
             uuidsAfter = uuids (frameAfterLoop cfg (in_store f) (in_playerPos f)
                             (in_now f) (in_delta f) lm (in_player f)) + 1,
             randomsAfter = randomCount lm + 1 \<rparr>"
proof -
  have c: "lettersComplete cfg (in_store f)" and "0 \<le> speed (in_store f)" "0 \<le> in_delta f"
    using f by (simp_all add: completeFrame_def)
  then have "0 \<le> speed (in_store f) * safeDelta (in_delta f)"
    by (simp add: safeDelta_def)
  then have d: "nextLetterDistance lm
                \<le> distanceTraveled lm + speed (in_store f) * safeDelta (in_delta f)"
    using due by simp
  show ?thesis
    unfolding frameSpawn_def Let_def
    by (rule spawnStep_fallback [OF opp d c])
qed

lemma frameSpawn_fallback_after_run:
  assumes "nextLetterDistance lm \<le> distanceTraveled lm"
    and "list_all (completeFrame cfg) fs"
    and "completeFrame cfg f"
    and "furthestZ (keptObjects (frameAfterLoop cfg (in_store f) (in_playerPos f)
                 (in_now f) (in_delta f) (runFrames cfg fs lm) (in_player f))
               @ newSpawns (frameAfterLoop cfg (in_store f) (in_playerPos f)
                 (in_now f) (in_delta f) (runFrames cfg fs lm) (in_player f)))
             > - SPAWN_DISTANCE cfg"
  shows "spawned (frameSpawn cfg (in_store f) (in_rnd f) (in_playerPos f) (in_now f)
                    (in_delta f) (runFrames cfg fs lm) (in_player f))
         = [plainGem cfg (in_store f) (in_rnd f (randomCount (runFrames cfg fs lm)))
              (uuids (frameAfterLoop cfg (in_store f) (in_playerPos f)
                 (in_now f) (in_delta f) (runFrames cfg fs lm) (in_player f)))
              (keptObjects (frameAfterLoop cfg (in_store f) (in_playerPos f)
                 (in_now f) (in_delta f) (runFrames cfg fs lm) (in_player f))
               @ newSpawns (frameAfterLoop cfg (in_store f) (in_playerPos f)
                 (in_now f) (in_delta f) (runFrames cfg fs lm) (in_player f)))]"
    and "threshold (frameSpawn cfg (in_store f) (in_rnd f) (in_playerPos f) (in_now f)
                    (in_delta f) (runFrames cfg fs lm) (in_player f))
         = nextLetterDistance lm"
proof -
  have r: "nextLetterDistance (runFrames cfg fs lm) = nextLetterDistance lm"
    "distanceTraveled lm \<le> distanceTraveled (runFrames cfg fs lm)"
    using runFrames_complete [OF assms(2), of lm] by simp_all
  then have due: "nextLetterDistance (runFrames cfg fs lm)
                  \<le> distanceTraveled (runFrames cfg fs lm)"
    using assms(1) by simp
  note fb = frameSpawn_fallback [OF due assms(3) assms(4)]
  show "spawned (frameSpawn cfg (in_store f) (in_rnd f) (in_playerPos f) (in_now f)
                    (in_delta f) (runFrames cfg fs lm) (in_player f))
         = [plainGem cfg (in_store f) (in_rnd f (randomCount (runFrames cfg fs lm)))
              (uuids (frameAfterLoop cfg (in_store f) (in_playerPos f)
                 (in_now f) (in_delta f) (runFrames cfg fs lm) (in_player f)))
              (keptObjects (frameAfterLoop cfg (in_store f) (in_playerPos f)
                 (in_now f) (in_delta f) (runFrames cfg fs lm) (in_player f))
               @ newSpawns (frameAfterLoop cfg (in_store f) (in_playerPos f)
                 (in_now f) (in_delta f) (runFrames cfg fs lm) (in_player f)))]"
    by (simp add: fb)
  show "threshold (frameSpawn cfg (in_store f) (in_rnd f) (in_playerPos f) (in_now f)
                    (in_delta f) (runFrames cfg fs lm) (in_player f))
         = nextLetterDistance lm"
    by (simp add: fb r)
qed

lemma levelManager_effect_reset:
  assumes "status s = MENU \<or> (status s = PLAYING
             \<and> (prevStatus lm = GAME_OVER \<or> prevStatus lm = VICTORY))"
  shows "levelManager_effect cfg s lm
         = ([], lm\<lparr> objects := [], renderTrigger := renderTrigger lm + 1,
                     distanceTraveled := 0, nextLetterDistance := getLetterInterval 1,
                     prevStatus := status s, prevLevel := level s \<rparr>)"
  using assms by (auto simp: levelManager_effect_def Let_def)

lemma lettersComplete_completeStore: "lettersComplete demoConfig completeStore"
  by (simp add: lettersComplete_def availableIndices_def demoConfig_def completeStore_def
      demoStore_def upt_rec)

lemma completeFrame_completeInput: "completeFrame demoConfig completeInput"
  using lettersComplete_completeStore
  by (simp add: completeFrame_def completeInput_def) (simp add: completeStore_def demoStore_def)

lemma demo_letter_spawn:
  "spawned (spawnStep demoConfig (demoStore\<lparr> level := 3 \<rparr>) (\<lambda>n. 1 / 2) 200 150 0 0 [])
   = [letterObject 0 (0, 1, - 120) (Some ''#cd853f'') (Some CHR ''K'') (Some 3)]"
  by (simp add: spawnStep_def Let_def furthestZ_def demoConfig_def demoStore_def
      availableIndices_def getRandomLane_def js_index_def upt_rec numeral_3_eq_3)

text \<open>
  Claim C2. For every level L of at least 1 the letter interval is
  \<open>BASE_LETTER_INTERVAL * 1.5 ^ (L - 1)\<close>. The spawning block leaves the letter
  threshold advanced by exactly the interval of the current level when it spawns a
  letter, and unchanged otherwise; the frame stores that value.
\<close>

theorem letter_interval_and_threshold:
  "(1 \<le> L \<longrightarrow> getLetterInterval L = BASE_LETTER_INTERVAL * (3 / 2) ^ nat (L - 1))
   \<and> threshold (spawnStep cfg s rnd d t u k objs)
     = (if \<exists>obj \<in> set (spawned (spawnStep cfg s rnd d t u k objs)). obj_type obj = LETTER
        then t + getLetterInterval (level s) else t)
   \<and> (status s = PLAYING \<longrightarrow>
        nextLetterDistance (fst (snd (levelManager_useFrame cfg s rnd pp now delta lm p)))
        = (if \<exists>obj \<in> set (spawned (frameSpawn cfg s rnd pp now delta lm p)).
                obj_type obj = LETTER
           then nextLetterDistance lm + getLetterInterval (level s)
           else nextLetterDistance lm))"
  using getLetterInterval_formula [of L] spawnStep_threshold [of cfg s rnd d t u k objs]
    frame_threshold [of s cfg rnd pp now delta lm p]
  by blast

theorem letter_interval_and_threshold_witness:
  "(1::int) \<le> 3 \<and> getLetterInterval 3 = 3375 / 10
   \<and> status (demoStore\<lparr> level := 3 \<rparr>) = PLAYING
   \<and> threshold (spawnStep demoConfig (demoStore\<lparr> level := 3 \<rparr>) (\<lambda>n. 1 / 2) 200 150 0 0 [])
       = 150 + 3375 / 10"
  using letter_interval_and_threshold [of 3 demoConfig "demoStore\<lparr> level := 3 \<rparr>"
      "\<lambda>n. 1 / 2" 200 150 0 0 "[]" "(0, 0, 0)" 7 "1 / 20" demoManager initialPlayer]
  by (simp add: demo_letter_spawn letterObject_def BASE_LETTER_INTERVAL_def
      power2_eq_square demoStore_simps)

text \<open>
  Claim C10. When a spawn opportunity comes with the letter threshold reached and every
  index of the target word collected, the spawning block pushes one collectible worth
  50 points, the object that the lone-collectible branch pushes, draws one random
  number (the lane) and leaves the threshold as it is. Frames during which the letter
  set is complete (speed and elapsed time not negative) neither move the threshold nor
  let the distance fall below it, so after any run of such frames a frame with a spawn
  opportunity spawns that collectible again, whatever the random numbers.
\<close>

theorem fallback_gem_persists:
  "(furthestZ objs > - SPAWN_DISTANCE cfg \<and> t \<le> d \<and> lettersComplete cfg s \<longrightarrow>
      spawnStep cfg s rnd d t u k objs
        = \<lparr> spawned = [plainGem cfg s (rnd k) u objs], threshold = t, spawnChanges = True,
            uuidsAfter = u + 1, randomsAfter = k + 1 \<rparr>)
   \<and> (furthestZ objs > - SPAWN_DISTANCE cfg \<and> \<not> t \<le> d \<and> rnd k > 1 / 10
        \<and> \<not> rnd (k + 1) > 2 / 10 \<longrightarrow>
      spawned (spawnStep cfg s rnd d t u k objs) = [plainGem cfg s (rnd (k + 2)) u objs])
   \<and> points (plainGem cfg s r u objs) = Some 50
   \<and> obj_type (plainGem cfg s r u objs) = GEM
   \<and> (nextLetterDistance lm \<le> distanceTraveled lm \<and> list_all (completeFrame cfg) fs \<longrightarrow>
        nextLetterDistance (runFrames cfg fs lm) = nextLetterDistance lm
        \<and> nextLetterDistance (runFrames cfg fs lm) \<le> distanceTraveled (runFrames cfg fs lm))
   \<and> (nextLetterDistance lm \<le> distanceTraveled lm \<and> list_all (completeFrame cfg) fs
        \<and> completeFrame cfg f
        \<and> furthestZ (keptObjects (inputLoop cfg f (runFrames cfg fs lm))
                      @ newSpawns (inputLoop cfg f (runFrames cfg fs lm)))
            > - SPAWN_DISTANCE cfg \<longrightarrow>
        spawned (inputSpawn cfg f (runFrames cfg fs lm))
          = [plainGem cfg (in_store f) (in_rnd f (randomCount (runFrames cfg fs lm)))
               (uuids (inputLoop cfg f (runFrames cfg fs lm)))
               (keptObjects (inputLoop cfg f (runFrames cfg fs lm))
                @ newSpawns (inputLoop cfg f (runFrames cfg fs lm)))]
        \<and> threshold (inputSpawn cfg f (runFrames cfg fs lm)) = nextLetterDistance lm)"
proof -
  have 1: "furthestZ objs > - SPAWN_DISTANCE cfg \<and> t \<le> d \<and> lettersComplete cfg s \<longrightarrow>
      spawnStep cfg s rnd d t u k objs
        = \<lparr> spawned = [plainGem cfg s (rnd k) u objs], threshold = t, spawnChanges = True,
            uuidsAfter = u + 1, randomsAfter = k + 1 \<rparr>"
    using spawnStep_fallback [of cfg objs t d s rnd u k] by blast
  have 2: "furthestZ objs > - SPAWN_DISTANCE cfg \<and> \<not> t \<le> d \<and> rnd k > 1 / 10
        \<and> \<not> rnd (k + 1) > 2 / 10 \<longrightarrow>
      spawned (spawnStep cfg s rnd d t u k objs) = [plainGem cfg s (rnd (k + 2)) u objs]"
    using spawnStep_lone [of cfg objs t d rnd k s u] by simp
  have 3: "points (plainGem cfg s r u objs) = Some 50"
    "obj_type (plainGem cfg s r u objs) = GEM"
    by (simp_all add: plainGem_def gemObject_def)
  have 4: "nextLetterDistance lm \<le> distanceTraveled lm \<and> list_all (completeFrame cfg) fs \<longrightarrow>
        nextLetterDistance (runFrames cfg fs lm) = nextLetterDistance lm
        \<and> nextLetterDistance (runFrames cfg fs lm) \<le> distanceTraveled (runFrames cfg fs lm)"
    using runFrames_complete [of cfg fs lm] by auto
  have 5: "nextLetterDistance lm \<le> distanceTraveled lm \<and> list_all (completeFrame cfg) fs
        \<and> completeFrame cfg f
        \<and> furthestZ (keptObjects (inputLoop cfg f (runFrames cfg fs lm))
                      @ newSpawns (inputLoop cfg f (runFrames cfg fs lm)))
            > - SPAWN_DISTANCE cfg \<longrightarrow>
        spawned (inputSpawn cfg f (runFrames cfg fs lm))
          = [plainGem cfg (in_store f) (in_rnd f (randomCount (runFrames cfg fs lm)))
               (uuids (inputLoop cfg f (runFrames cfg fs lm)))
               (keptObjects (inputLoop cfg f (runFrames cfg fs lm))
                @ newSpawns (inputLoop cfg f (runFrames cfg fs lm)))]
        \<and> threshold (inputSpawn cfg f (runFrames cfg fs lm)) = nextLetterDistance lm"
    using frameSpawn_fallback_after_run [of lm cfg fs f] by blast
  from 1 2 3 4 5 show ?thesis by blast
qed

lemma inputLoop_dueManager:
  "keptObjects (inputLoop demoConfig completeInput dueManager) = []"
  "newSpawns (inputLoop demoConfig completeInput dueManager) = []"
  "uuids (inputLoop demoConfig completeInput dueManager) = 0"
  by (simp_all add: frameAfterLoop_def dueManager_def initialLevelManager_def)

theorem fallback_gem_persists_witness:
  "furthestZ [] > - SPAWN_DISTANCE demoConfig \<and> (150::real) \<le> 150
   \<and> lettersComplete demoConfig completeStore
   \<and> spawned (spawnStep demoConfig completeStore (\<lambda>n. 1 / 2) 150 150 0 0 [])
       = [plainGem demoConfig completeStore (1 / 2) 0 []]
   \<and> nextLetterDistance dueManager \<le> distanceTraveled dueManager
   \<and> list_all (completeFrame demoConfig) [completeInput, completeInput]
   \<and> nextLetterDistance (runFrames demoConfig [completeInput, completeInput] dueManager) = 150
   \<and> completeFrame demoConfig completeInput
   \<and> spawned (inputSpawn demoConfig completeInput (runFrames demoConfig [] dueManager))
       = [plainGem demoConfig completeStore (1 / 2) 0 []]
   \<and> \<not> (150::real) \<le> 100 \<and> (1::real) / 2 > 1 / 10 \<and> \<not> (0::real) > 2 / 10
   \<and> spawned (spawnStep demoConfig demoStore (\<lambda>n. if n = 1 then 0 else 1 / 2) 100 150 0 0 [])
       = [plainGem demoConfig demoStore (1 / 2) 0 []]"
  using fallback_gem_persists [where objs = "[]" and cfg = demoConfig and t = 150
      and d = 150 and s = completeStore and rnd = "\<lambda>n. 1 / 2" and u = 0 and k = 0
      and r = "1 / 2" and lm = dueManager and fs = "[completeInput, completeInput]"
      and f = completeInput]
    fallback_gem_persists [where objs = "[]" and cfg = demoConfig and t = 150
      and d = 150 and s = completeStore and rnd = "\<lambda>n. 1 / 2" and u = 0 and k = 0
      and r = "1 / 2" and lm = dueManager and fs = "[]" and f = completeInput]
    fallback_gem_persists [where objs = "[]" and cfg = demoConfig and t = 150
      and d = 100 and s = demoStore and rnd = "\<lambda>n. if n = 1 then 0 else 1 / 2" and u = 0
      and k = 0 and r = "1 / 2" and lm = dueManager and fs = "[]" and f = completeInput]
    lettersComplete_completeStore completeFrame_completeInput
  by (simp add: inputLoop_dueManager)
     (simp add: furthestZ_def demoConfig_def dueManager_def initialLevelManager_def
        BASE_LETTER_INTERVAL_def completeInput_def)

text \<open>
  Claim C8, as the code has it. A restart sets the score to 0, the lives to the base
  number of lives, the level to 1, the collected letters to empty and the distance to
  0, whatever they were. The level manager's effect that follows clears the entities,
  sets the travelled distance to 0 and the letter threshold to the interval of level
  1, which is the base interval, when the status before the restart was GameOver or
  Victory; after a restart from any other status it leaves the entities, the travelled
  distance and the letter threshold as they were and only records the new status and
  level. Entering the menu resets the level manager as a restart from GameOver does.
\<close>

theorem restart_resets:
  "score (restartGame baseLives s) = 0
   \<and> lives (restartGame baseLives s) = baseLives
   \<and> maxLives (restartGame baseLives s) = baseLives
   \<and> level (restartGame baseLives s) = 1
   \<and> collectedLetters (restartGame baseLives s) = []
   \<and> distance (restartGame baseLives s) = 0
   \<and> status (restartGame baseLives s) = PLAYING
   \<and> (prevStatus lm = GAME_OVER \<or> prevStatus lm = VICTORY \<longrightarrow>
      objects (snd (levelManager_effect cfg (restartGame baseLives s) lm)) = []
      \<and> distanceTraveled (snd (levelManager_effect cfg (restartGame baseLives s) lm)) = 0
      \<and> nextLetterDistance (snd (levelManager_effect cfg (restartGame baseLives s) lm))
          = getLetterInterval 1)
   \<and> (prevStatus lm \<noteq> GAME_OVER \<and> prevStatus lm \<noteq> VICTORY \<longrightarrow>
      levelManager_effect cfg (restartGame baseLives s) lm
        = ([], lm\<lparr> prevStatus := PLAYING, prevLevel := 1 \<rparr>))
   \<and> (status s = MENU \<longrightarrow>
        objects (snd (levelManager_effect cfg s lm)) = []
        \<and> distanceTraveled (snd (levelManager_effect cfg s lm)) = 0
        \<and> nextLetterDistance (snd (levelManager_effect cfg s lm)) = getLetterInterval 1)
   \<and> getLetterInterval 1 = BASE_LETTER_INTERVAL"
proof -
  have r: "status (restartGame baseLives s) = PLAYING"
    by (simp add: restartGame_def)
  have l: "level (restartGame baseLives s) = 1"
    by (simp add: restartGame_def)
  have 1: "prevStatus lm = GAME_OVER \<or> prevStatus lm = VICTORY \<longrightarrow>
      objects (snd (levelManager_effect cfg (restartGame baseLives s) lm)) = []
      \<and> distanceTraveled (snd (levelManager_effect cfg (restartGame baseLives s) lm)) = 0
      \<and> nextLetterDistance (snd (levelManager_effect cfg (restartGame baseLives s) lm))
          = getLetterInterval 1"
    using r levelManager_effect_reset [of "restartGame baseLives s" lm cfg] by auto
  have 2: "status s = MENU \<longrightarrow>
        objects (snd (levelManager_effect cfg s lm)) = []
        \<and> distanceTraveled (snd (levelManager_effect cfg s lm)) = 0
        \<and> nextLetterDistance (snd (levelManager_effect cfg s lm)) = getLetterInterval 1"
    using levelManager_effect_reset [of s lm cfg] by auto
  have 3: "getLetterInterval 1 = BASE_LETTER_INTERVAL"
    by (simp add: getLetterInterval_def)
  have 4: "score (restartGame baseLives s) = 0
      \<and> lives (restartGame baseLives s) = baseLives
      \<and> maxLives (restartGame baseLives s) = baseLives
      \<and> level (restartGame baseLives s) = 1
      \<and> collectedLetters (restartGame baseLives s) = []
      \<and> distance (restartGame baseLives s) = 0"
    by (simp add: restartGame_def)
  have 5: "prevStatus lm \<noteq> GAME_OVER \<and> prevStatus lm \<noteq> VICTORY \<longrightarrow>
      levelManager_effect cfg (restartGame baseLives s) lm
        = ([], lm\<lparr> prevStatus := PLAYING, prevLevel := 1 \<rparr>)"
    using r l by (simp add: levelManager_effect_def Let_def)
  from r 1 2 3 4 5 show ?thesis by blast
qed

lemma runningManager_simps:
  "prevStatus runningManager = PLAYING"
  "objects runningManager = [demoObstacle, demoPortal]"
  "distanceTraveled runningManager = 7315 / 10"
  "nextLetterDistance runningManager = 900"
  by (simp_all add: runningManager_def endedManager_def)

theorem restart_resets_witness:
  "(prevStatus endedManager = GAME_OVER \<or> prevStatus endedManager = VICTORY)
   \<and> score (restartGame 3 endedStore) = 0
   \<and> lives (restartGame 3 endedStore) = 3
   \<and> objects (snd (levelManager_effect demoConfig (restartGame 3 endedStore) endedManager))
       = []
   \<and> nextLetterDistance
        (snd (levelManager_effect demoConfig (restartGame 3 endedStore) endedManager)) = 150
   \<and> status (endedStore\<lparr> status := MENU \<rparr>) = MENU
   \<and> objects (snd (levelManager_effect demoConfig (endedStore\<lparr> status := MENU \<rparr>)
                      endedManager)) = []
   \<and> prevStatus runningManager \<noteq> GAME_OVER \<and> prevStatus runningManager \<noteq> VICTORY
   \<and> score (restartGame 3 runningStore) = 0
   \<and> levelManager_effect demoConfig (restartGame 3 runningStore) runningManager
       = ([], runningManager\<lparr> prevStatus := PLAYING, prevLevel := 1 \<rparr>)"
  using restart_resets [where lm = endedManager and baseLives = 3 and s = endedStore
      and cfg = demoConfig]
    restart_resets [where lm = endedManager and baseLives = 3
      and s = "endedStore\<lparr> status := MENU \<rparr>" and cfg = demoConfig]
    restart_resets [where lm = runningManager and baseLives = 3 and s = runningStore
      and cfg = demoConfig]
  by (simp add: endedManager_def BASE_LETTER_INTERVAL_def runningManager_simps)

text \<open>
  Claim C8 as it is written, for every state before the restart, fails on a restart in
  the middle of a run: the status before is Playing, so the effect recognises no
  restart, and the two entities, the travelled distance 731.5 and the letter threshold
  900 stay.
\<close>

theorem restart_while_playing_counterexample:
  "status runningStore = PLAYING
   \<and> prevStatus runningManager = PLAYING
   \<and> objects (snd (levelManager_effect demoConfig (restartGame 3 runningStore)
                      runningManager)) = [demoObstacle, demoPortal]
   \<and> objects (snd (levelManager_effect demoConfig (restartGame 3 runningStore)
                      runningManager)) \<noteq> []
   \<and> distanceTraveled (snd (levelManager_effect demoConfig (restartGame 3 runningStore)
                               runningManager)) \<noteq> 0
   \<and> nextLetterDistance (snd (levelManager_effect demoConfig (restartGame 3 runningStore)
                                 runningManager)) \<noteq> getLetterInterval 1"
  by (simp add: levelManager_effect_def Let_def restartGame_def runningStore_def
      endedStore_def runningManager_def endedManager_def getLetterInterval_def
      BASE_LETTER_INTERVAL_def)

end
